theory Spec2Isabelle
  imports Complex_Main
begin

section \<open>Python strings and exceptions\<close>

text \<open>
  Text is a list of characters with code points below 256; byte strings are lists of
  the same characters. The helpers below are the \<open>str\<close> methods the source calls.
\<close>

type_synonym bytes = "char list"

text \<open>\<open>c.isspace()\<close> for a code point below 256.\<close>

definition is_space :: "char \<Rightarrow> bool" where
  "is_space c = (let n = (of_char c :: nat) in
     (9 \<le> n \<and> n \<le> 13) \<or> (28 \<le> n \<and> n \<le> 32) \<or> n = 133 \<or> n = 160)"

text \<open>\<open>s.strip()\<close>: leading and trailing whitespace removed.\<close>

definition strip :: "string \<Rightarrow> string" where
  "strip s = rev (dropWhile is_space (rev (dropWhile is_space s)))"

text \<open>\<open>s.strip(q)\<close> for a single character \<open>q\<close>.\<close>

definition strip_char :: "char \<Rightarrow> string \<Rightarrow> string" where
  "strip_char q s = rev (dropWhile (\<lambda>c. c = q) (rev (dropWhile (\<lambda>c. c = q) s)))"

text \<open>
  \<open>s.lower()\<close>, character by character, for code points below 256: the capitals
  (65 to 90, and 192 to 222 except 215) move up by 32, which sets bit 5 of the code point.
\<close>

definition lower_char :: "char \<Rightarrow> char" where
  "lower_char c = (let n = (of_char c :: nat) in
     if (65 \<le> n \<and> n \<le> 90) \<or> (192 \<le> n \<and> n \<le> 222 \<and> n \<noteq> 215)
     then (case c of Char b0 b1 b2 b3 b4 b5 b6 b7 \<Rightarrow> Char b0 b1 b2 b3 b4 True b6 b7)
     else c)"

definition lower :: "string \<Rightarrow> string" where
  "lower s = map lower_char s"

text \<open>\<open>s.startswith(p)\<close>.\<close>

definition startswith :: "string \<Rightarrow> string \<Rightarrow> bool" where
  "startswith s p = (take (length p) s = p)"

text \<open>\<open>p in s\<close> for strings: \<open>p\<close> occurs in \<open>s\<close> as a contiguous run.\<close>

fun contains :: "string \<Rightarrow> string \<Rightarrow> bool" where
  "contains p [] = (p = [])"
| "contains p (c # cs) = (startswith (c # cs) p \<or> contains p cs)"

text \<open>\<open>s.split(sep)\<close> for a single character \<open>sep\<close>: always at least one piece.\<close>

fun split_on :: "char \<Rightarrow> string \<Rightarrow> string list" where
  "split_on sep [] = [[]]"
| "split_on sep (c # cs) =
     (if c = sep then [] # split_on sep cs
      else (case split_on sep cs of
              [] \<Rightarrow> [[c]]
            | t # ts \<Rightarrow> (c # t) # ts))"

text \<open>
  \<open>token.split("=",1)[1]\<close>: everything after the first \<open>=\<close>. The source evaluates it only
  on a token that starts with \<open>name=\<close> or \<open>filename=\<close>, so index 1 exists.
\<close>

definition after_eq :: "string \<Rightarrow> string" where
  "after_eq t = drop 1 (dropWhile (\<lambda>c. c \<noteq> CHR ''='') t)"

text \<open>
  The exceptions the pipeline raises itself (\<open>ValueError\<close> with its message, the
  \<open>IndexError\<close> of a list or cell index out of range) and the ones raised inside the
  libraries it calls, which carry their message.
\<close>

datatype exn =
    ValueError string
  | IndexError
  | KeyError string
  | AttributeError string
  | ResourceExistsError
  | LibraryError string

fun exn_str :: "exn \<Rightarrow> string" where
  "exn_str (ValueError m) = m"
| "exn_str IndexError = ''list index out of range''"
| "exn_str (KeyError k) = CHR 0x27 # k @ [CHR 0x27]"
| "exn_str (AttributeError m) = m"
| "exn_str ResourceExistsError = ''The specified container already exists.''"
| "exn_str (LibraryError m) = m"

text \<open>\<open>a or b\<close> on optional strings: \<open>a\<close> when it is neither \<open>None\<close> nor empty.\<close>

fun py_or :: "string option \<Rightarrow> string option \<Rightarrow> string option" where
  "py_or (Some (c # cs)) b = Some (c # cs)"
| "py_or a b = b"

section \<open>MultipartExtractor\<close>

record http_request =
  req_headers :: "string \<rightharpoonup> string"
  req_body :: bytes

text \<open>A decoded body part: its headers (values already decoded to text) and content.\<close>

record part =
  part_headers :: "string \<rightharpoonup> string"
  part_content :: bytes

record upload =
  filename :: "string option"
  content :: bytes

text \<open>
  The inner loop over the tokens of the disposition header: \<open>name\<close> and \<open>filename\<close>
  start as \<open>None\<close>, and each token may overwrite either.
\<close>

fun scan_tokens :: "string list \<Rightarrow> string option \<times> string option \<Rightarrow> string option \<times> string option" where
  "scan_tokens [] nf = nf"
| "scan_tokens (token # ts) (name, fname) =
     (let token = strip token;
          name = (if startswith token ''name='' then Some (strip_char CHR 0x22 (after_eq token)) else name);
          fname = (if startswith token ''filename='' then Some (strip_char CHR 0x22 (after_eq token)) else fname)
      in scan_tokens ts (name, fname))"

definition disposition :: "part \<Rightarrow> string" where
  "disposition p = (case part_headers p ''Content-Disposition'' of None \<Rightarrow> [] | Some cd \<Rightarrow> cd)"

definition part_name :: "part \<Rightarrow> string option" where
  "part_name p = fst (scan_tokens (split_on CHR '';'' (disposition p)) (None, None))"

definition part_filename :: "part \<Rightarrow> string option" where
  "part_filename p = snd (scan_tokens (split_on CHR '';'' (disposition p)) (None, None))"

text \<open>
  Following the words of the specification, not the code: the parameters of a
  disposition header are its pieces between semicolons, a semicolon inside a quoted
  value not separating; the header carries a name parameter when one of them, trimmed,
  starts with \<open>name=\<close>.
\<close>

fun split_params :: "bool \<Rightarrow> string \<Rightarrow> string list" where
  "split_params quoted [] = [[]]"
| "split_params quoted (c # cs) =
     (if c = CHR '';'' \<and> \<not> quoted then [] # split_params quoted cs
      else (case split_params (if c = CHR 0x22 then \<not> quoted else quoted) cs of
              [] \<Rightarrow> [[c]]
            | t # ts \<Rightarrow> (c # t) # ts))"

definition carries_name :: "string \<Rightarrow> bool" where
  "carries_name cd = list_ex (\<lambda>t. startswith (strip t) ''name='') (split_params False cd)"

text \<open>One iteration of the loop over the parts: \<open>if name: files[name] = ...\<close>.\<close>

definition add_part :: "(string \<rightharpoonup> upload) \<Rightarrow> part \<Rightarrow> (string \<rightharpoonup> upload)" where
  "add_part files p =
     (case part_name p of
        None \<Rightarrow> files
      | Some [] \<Rightarrow> files
      | Some (c # cs) \<Rightarrow> files((c # cs) \<mapsto> \<lparr>filename = part_filename p, content = part_content p\<rparr>))"

definition collect_parts :: "part list \<Rightarrow> (string \<rightharpoonup> upload)" where
  "collect_parts ps = foldl add_part Map.empty ps"

text \<open>
  \<open>_parse_multipart\<close>. The multipart decoder is the library's; it is a parameter that
  returns the parts or the exception it raised.
\<close>

definition parse_multipart ::
  "(bytes \<Rightarrow> string \<Rightarrow> exn + part list) \<Rightarrow> http_request \<Rightarrow> exn + (string \<rightharpoonup> upload)" where
  "parse_multipart decoder req =
     (case py_or (req_headers req ''Content-Type'') (req_headers req ''content-type'') of
        None \<Rightarrow> Inl (ValueError ''Content-Type must be multipart/form-data'')
      | Some ctype \<Rightarrow>
          if ctype = [] then Inl (ValueError ''Content-Type must be multipart/form-data'')
          else if contains ''multipart/form-data'' ctype then
            (case decoder (req_body req) ctype of
               Inl e \<Rightarrow> Inl e
             | Inr parts \<Rightarrow> Inr (collect_parts parts))
          else Inl (ValueError ''Content-Type must be multipart/form-data''))"

section \<open>ScoreTableReader\<close>

text \<open>
  A Python float: a finite value, an infinity or not-a-number. Finite values are
  carried as reals; the reader performs no arithmetic on them.
\<close>

datatype pyfloat = Fin real | PInf | NInf | NaN

text \<open>
  A worksheet cell as the spreadsheet library hands it over: an empty cell (which it
  reads as not-a-number), a number, text, a boolean, or a date or time (carried as its
  \<open>str\<close> rendering).
\<close>

datatype cell = Missing | Number real | Text string | Bool bool | Stamp string

text \<open>A column label: a string, or a header that is not a string (a number, a date).\<close>

datatype label = StrLabel string | OtherLabel nat

text \<open>
  The data frame of the worksheet: its column labels, which the library keeps distinct,
  and its rows, each with one cell per column.
\<close>

record dataframe =
  df_columns :: "label list"
  df_rows :: "cell list list"

text \<open>\<open>{c.strip().lower(): c for c in df.columns if isinstance(c,str)}\<close>: a later
  column replaces an earlier one with the same normalised name.\<close>

definition cols_step :: "(string \<rightharpoonup> string) \<Rightarrow> label \<Rightarrow> (string \<rightharpoonup> string)" where
  "cols_step m c = (case c of StrLabel s \<Rightarrow> m(lower (strip s) \<mapsto> s) | OtherLabel _ \<Rightarrow> m)"

definition cols_map :: "label list \<Rightarrow> (string \<rightharpoonup> string)" where
  "cols_map cs = foldl cols_step Map.empty cs"

text \<open>\<open>cols_map.get("average score") or list(df.columns)[1]\<close>: the index raises when
  the frame has fewer than two columns.\<close>

definition avg_column :: "(string \<rightharpoonup> string) \<Rightarrow> label list \<Rightarrow> exn + label" where
  "avg_column cm cs =
     (case cm ''average score'' of
        Some (c # s) \<Rightarrow> Inr (StrLabel (c # s))
      | _ \<Rightarrow> if length cs < 2 then Inl IndexError else Inr (cs ! 1))"

text \<open>The cell of a row under a column label; \<open>None\<close> when the row has no such cell.\<close>

fun cell_at :: "label list \<Rightarrow> cell list \<Rightarrow> label \<Rightarrow> cell option" where
  "cell_at (c # cs) (x # xs) l = (if c = l then Some x else cell_at cs xs l)"
| "cell_at _ _ l = None"

text \<open>\<open>df.dropna(subset=[cat_col])\<close>: rows whose category cell is empty are removed.\<close>

definition dropna :: "label list \<Rightarrow> label \<Rightarrow> cell list list \<Rightarrow> cell list list" where
  "dropna cs l rs = filter (\<lambda>r. cell_at cs r l \<noteq> Some Missing) rs"

text \<open>
  \<open>to_num\<close>: \<open>float(v)\<close>, or \<open>None\<close> when it raises. \<open>float\<close> accepts a float as it is
  (not-a-number included) and a boolean as 0 or 1; on text it is the language's parser,
  a parameter here; on \<open>None\<close> and on a date it raises.
\<close>

fun to_num :: "(string \<Rightarrow> pyfloat option) \<Rightarrow> cell option \<Rightarrow> pyfloat option" where
  "to_num float_text None = None"
| "to_num float_text (Some Missing) = Some NaN"
| "to_num float_text (Some (Number x)) = Some (Fin x)"
| "to_num float_text (Some (Text s)) = float_text s"
| "to_num float_text (Some (Bool b)) = Some (Fin (if b then 1 else 0))"
| "to_num float_text (Some (Stamp s)) = None"

text \<open>\<open>str(v)\<close> of a cell; the rendering of a number is the language's, a parameter.\<close>

fun py_str :: "(real \<Rightarrow> string) \<Rightarrow> cell \<Rightarrow> string" where
  "py_str str_num Missing = ''nan''"
| "py_str str_num (Number x) = str_num x"
| "py_str str_num (Text s) = s"
| "py_str str_num (Bool b) = (if b then ''True'' else ''False'')"
| "py_str str_num (Stamp s) = s"

text \<open>The loop over the rows, with \<open>cats\<close>, \<open>scores\<close> and \<open>overall\<close> as its state.\<close>

fun scan_rows ::
  "(string \<Rightarrow> pyfloat option) \<Rightarrow> (real \<Rightarrow> string) \<Rightarrow> label list \<Rightarrow> string \<Rightarrow> label \<Rightarrow>
   cell list list \<Rightarrow> string list \<times> pyfloat list \<times> pyfloat option \<Rightarrow>
   exn + (string list \<times> pyfloat list \<times> pyfloat option)" where
  "scan_rows float_text str_num cs cat_col avg_col [] acc = Inr acc"
| "scan_rows float_text str_num cs cat_col avg_col (r # rs) (cats, scores, overall) =
     (case cell_at cs r (StrLabel cat_col) of
        None \<Rightarrow> Inl (KeyError cat_col)
      | Some c \<Rightarrow>
          (let name = strip (py_str str_num c);
               val = to_num float_text (cell_at cs r avg_col)
           in if name = [] then
                scan_rows float_text str_num cs cat_col avg_col rs (cats, scores, overall)
              else if contains ''overall'' (lower name) then
                scan_rows float_text str_num cs cat_col avg_col rs
                  (cats, scores, (case val of Some v \<Rightarrow> Some v | None \<Rightarrow> overall))
              else (case val of
                      Some v \<Rightarrow>
                        scan_rows float_text str_num cs cat_col avg_col rs
                          (cats @ [name], scores @ [v], overall)
                    | None \<Rightarrow>
                        scan_rows float_text str_num cs cat_col avg_col rs
                          (cats, scores, overall))))"

text \<open>
  The body of \<open>_read_scores_from_excel\<close> after the worksheet is loaded. The score column
  is resolved before the category column is checked, as in the source.
\<close>

definition read_scores_from_frame ::
  "(string \<Rightarrow> pyfloat option) \<Rightarrow> (real \<Rightarrow> string) \<Rightarrow> dataframe \<Rightarrow>
   exn + (string list \<times> pyfloat list \<times> pyfloat option)" where
  "read_scores_from_frame float_text str_num df =
     (let cm = cols_map (df_columns df);
          cat_col = cm ''category''
      in case avg_column cm (df_columns df) of
           Inl e \<Rightarrow> Inl e
         | Inr avg_col \<Rightarrow>
             (case cat_col of
                Some (c # s) \<Rightarrow>
                  scan_rows float_text str_num (df_columns df) (c # s) avg_col
                    (dropna (df_columns df) (StrLabel (c # s)) (df_rows df)) ([], [], None)
              | _ \<Rightarrow> Inl (ValueError ''Could not find 'Category' column in Summary Dashboard.'')))"

text \<open>
  \<open>_read_scores_from_excel\<close>: the spreadsheet library loads the worksheet named
  "Summary Dashboard" from the bytes, or raises; it is a parameter.
\<close>

definition read_scores_from_excel ::
  "(bytes \<Rightarrow> exn + dataframe) \<Rightarrow> (string \<Rightarrow> pyfloat option) \<Rightarrow> (real \<Rightarrow> string) \<Rightarrow> bytes \<Rightarrow>
   exn + (string list \<times> pyfloat list \<times> pyfloat option)" where
  "read_scores_from_excel read_excel float_text str_num excel_bytes =
     (case read_excel excel_bytes of
        Inl e \<Rightarrow> Inl e
      | Inr df \<Rightarrow> read_scores_from_frame float_text str_num df)"

section \<open>ScorecardRenderer\<close>

text \<open>
  The table handed to the PDF library: text cells and rounded scores. The rounding
  \<open>round(s,2)\<close> and the rendering of the finished table are parameters.
\<close>

datatype sc_cell = SText string | SNum pyfloat

definition scorecard_data ::
  "(pyfloat \<Rightarrow> pyfloat) \<Rightarrow> string list \<Rightarrow> pyfloat list \<Rightarrow> pyfloat option \<Rightarrow> sc_cell list list" where
  "scorecard_data round2 categories scores overall =
     [[SText ''Category'', SText ''Average Score (1-5)'']]
     @ map (\<lambda>(c, s). [SText c, SNum (round2 s)]) (zip categories scores)
     @ [[SText ''Overall Average'',
         (case overall of Some v \<Rightarrow> SNum (round2 v) | None \<Rightarrow> SText [])]]"

text \<open>\<open>_build_scorecard_pdf\<close>; the file written at \<open>out_path\<close> is returned as its content.\<close>

definition build_scorecard_pdf ::
  "(sc_cell list list \<Rightarrow> exn + bytes) \<Rightarrow> (pyfloat \<Rightarrow> pyfloat) \<Rightarrow>
   string list \<Rightarrow> pyfloat list \<Rightarrow> pyfloat option \<Rightarrow> exn + bytes" where
  "build_scorecard_pdf render_pdf round2 categories scores overall =
     render_pdf (scorecard_data round2 categories scores overall)"

section \<open>TemplateFiller\<close>

text \<open>
  A Word table as the document library presents it: cell objects, each with its text,
  and for every row the list \<open>row.cells\<close> of the cell objects at the row's grid
  positions. A merged cell is one object standing at several positions, of one row or
  of several, so that a write through one position shows at the others. The rest of
  the document is not touched by the filler.
\<close>

record table =
  tbl_rows :: "nat list list"
  tbl_text :: "nat \<Rightarrow> string"

record document =
  doc_tables :: "table list"
  doc_rest :: bytes

text \<open>A Python dict as an association list in insertion order; \<open>d[k] = v\<close> keeps the
  position of a key that is already present.\<close>

fun dict_set :: "'k \<Rightarrow> 'v \<Rightarrow> ('k \<times> 'v) list \<Rightarrow> ('k \<times> 'v) list" where
  "dict_set k v [] = [(k, v)]"
| "dict_set k v (p # ps) = (if fst p = k then (k, v) # ps else p # dict_set k v ps)"

text \<open>\<open>dict(pairs)\<close>.\<close>

definition dict_of :: "('k \<times> 'v) list \<Rightarrow> ('k \<times> 'v) list" where
  "dict_of kvs = foldl (\<lambda>d (k, v). dict_set k v d) [] kvs"

text \<open>\<open>{k.strip().lower(): v for k, v in score_map.items()}\<close>; only looked up afterwards.\<close>

definition norm_step :: "(string \<rightharpoonup> pyfloat) \<Rightarrow> string \<times> pyfloat \<Rightarrow> (string \<rightharpoonup> pyfloat)" where
  "norm_step m kv = m(lower (strip (fst kv)) \<mapsto> snd kv)"

definition norm_map :: "(string \<times> pyfloat) list \<Rightarrow> (string \<rightharpoonup> pyfloat)" where
  "norm_map score_map = foldl norm_step Map.empty score_map"

text \<open>
  One iteration of the loop over the rows, on the texts of the cell objects:
  \<open>row.cells[0]\<close> and \<open>row.cells[1]\<close> raise when the row has no such position. The
  two-decimal formatting \<open>f"{v:.2f}"\<close> is the language's, a parameter.
\<close>

definition fill_row ::
  "(string \<rightharpoonup> pyfloat) \<Rightarrow> (pyfloat \<Rightarrow> string) \<Rightarrow> (nat \<Rightarrow> string) \<Rightarrow> nat list \<Rightarrow>
   exn + (nat \<Rightarrow> string)" where
  "fill_row nrm format_2f text r =
     (case r of
        [] \<Rightarrow> Inl IndexError
      | c0 # _ \<Rightarrow>
          (case nrm (lower (strip (text c0))) of
             None \<Rightarrow> Inr text
           | Some v \<Rightarrow>
               if length r < 2 then Inl IndexError
               else Inr (text(r ! 1 := format_2f v))))"

text \<open>The loop: each row sees the texts as the rows before it left them.\<close>

fun fill_rows ::
  "(string \<rightharpoonup> pyfloat) \<Rightarrow> (pyfloat \<Rightarrow> string) \<Rightarrow> (nat \<Rightarrow> string) \<Rightarrow> nat list list \<Rightarrow>
   exn + (nat \<Rightarrow> string)" where
  "fill_rows nrm format_2f text [] = Inr text"
| "fill_rows nrm format_2f text (r # rs) =
     (case fill_row nrm format_2f text r of
        Inl e \<Rightarrow> Inl e
      | Inr text' \<Rightarrow> fill_rows nrm format_2f text' rs)"

text \<open>
  The part of \<open>_fill_word_scores\<close> between loading and saving: the check for a table
  and the loop over \<open>t.rows[1:]\<close>, every row of the first table after row 0.
\<close>

definition fill_document ::
  "(pyfloat \<Rightarrow> string) \<Rightarrow> (string \<times> pyfloat) list \<Rightarrow> document \<Rightarrow> exn + document" where
  "fill_document format_2f score_map doc =
     (case doc_tables doc of
        [] \<Rightarrow> Inl (ValueError
           ''Word template has no tables. Expected Operations Review table as first table.'')
      | t # ts \<Rightarrow>
          (case fill_rows (norm_map score_map) format_2f (tbl_text t) (drop 1 (tbl_rows t)) of
             Inl e \<Rightarrow> Inl e
           | Inr text' \<Rightarrow> Inr (doc\<lparr>doc_tables := t\<lparr>tbl_text := text'\<rparr> # ts\<rparr>)))"

text \<open>
  \<open>_fill_word_scores\<close>. Loading the template and saving the document are the
  library's, parameters here; the saved bytes are taken to depend on the document only.
\<close>

definition fill_word_scores ::
  "(bytes \<Rightarrow> exn + document) \<Rightarrow> (document \<Rightarrow> bytes) \<Rightarrow> (pyfloat \<Rightarrow> string) \<Rightarrow>
   bytes \<Rightarrow> (string \<times> pyfloat) list \<Rightarrow> exn + bytes" where
  "fill_word_scores load_docx save_docx format_2f template_bytes score_map =
     (case load_docx template_bytes of
        Inl e \<Rightarrow> Inl e
      | Inr doc \<Rightarrow>
          (case fill_document format_2f score_map doc of
             Inl e \<Rightarrow> Inl e
           | Inr doc' \<Rightarrow> Inr (save_docx doc')))"

text \<open>
  For stating what the loop achieves: the score a row matches under given texts (none
  when the row has no first cell or its key is not in the mapping), the write a
  matching row makes, and the writes of a list of rows applied in order.
\<close>

definition row_score :: "(string \<rightharpoonup> pyfloat) \<Rightarrow> (nat \<Rightarrow> string) \<Rightarrow> nat list \<Rightarrow> pyfloat option" where
  "row_score nrm text r = (case r of [] \<Rightarrow> None | c0 # _ \<Rightarrow> nrm (lower (strip (text c0))))"

definition row_write ::
  "(string \<rightharpoonup> pyfloat) \<Rightarrow> (pyfloat \<Rightarrow> string) \<Rightarrow> (nat \<Rightarrow> string) \<Rightarrow> nat list \<Rightarrow>
   (nat \<times> string) option" where
  "row_write nrm format_2f text r = map_option (\<lambda>v. (r ! 1, format_2f v)) (row_score nrm text r)"

definition writes ::
  "(string \<rightharpoonup> pyfloat) \<Rightarrow> (pyfloat \<Rightarrow> string) \<Rightarrow> (nat \<Rightarrow> string) \<Rightarrow> nat list list \<Rightarrow>
   (nat \<times> string) list" where
  "writes nrm format_2f text rs = List.map_filter (row_write nrm format_2f text) rs"

definition apply_writes :: "(nat \<times> string) list \<Rightarrow> (nat \<Rightarrow> string) \<Rightarrow> (nat \<Rightarrow> string)" where
  "apply_writes ws text = fold (\<lambda>w t. t(fst w := snd w)) ws text"

section \<open>DocumentMerger\<close>

text \<open>\<open>for p in pages: writer.add_page(p)\<close>, the writer being the list of its pages.\<close>

definition add_pages :: "'page list \<Rightarrow> 'page list \<Rightarrow> 'page list" where
  "add_pages writer pages = foldl (\<lambda>w p. w @ [p]) writer pages"

text \<open>An optional document is read only when it is given and not empty
  (\<open>if cover_pdf_bytes:\<close>).\<close>

definition add_optional ::
  "(bytes \<Rightarrow> exn + 'page list) \<Rightarrow> 'page list \<Rightarrow> bytes option \<Rightarrow> exn + 'page list" where
  "add_optional read_pdf writer pdf_bytes =
     (case pdf_bytes of
        Some (b # bs) \<Rightarrow>
          (case read_pdf (b # bs) of
             Inl e \<Rightarrow> Inl e
           | Inr pages \<Rightarrow> Inr (add_pages writer pages))
      | _ \<Rightarrow> Inr writer)"

text \<open>
  \<open>_merge_pdfs\<close>. Reading a PDF into its pages and writing pages out are the library's,
  parameters here; the scorecard file at \<open>scorecard_pdf_path\<close> is given by its content.
\<close>

definition merge_pdfs ::
  "(bytes \<Rightarrow> exn + 'page list) \<Rightarrow> ('page list \<Rightarrow> bytes) \<Rightarrow>
   bytes option \<Rightarrow> bytes \<Rightarrow> bytes option \<Rightarrow> exn + bytes" where
  "merge_pdfs read_pdf write_pdf cover_pdf_bytes scorecard_pdf narrative_pdf_bytes =
     (case add_optional read_pdf [] cover_pdf_bytes of
        Inl e \<Rightarrow> Inl e
      | Inr w1 \<Rightarrow>
          (case read_pdf scorecard_pdf of
             Inl e \<Rightarrow> Inl e
           | Inr score \<Rightarrow>
               (case add_optional read_pdf (add_pages w1 score) narrative_pdf_bytes of
                  Inl e \<Rightarrow> Inl e
                | Inr w3 \<Rightarrow> Inr (write_pdf w3))))"

section \<open>PublishStore\<close>

text \<open>
  The client of one container: its two calls act on the state of the storage service
  and return the exception they raised, if any.
\<close>

record 'st container_client =
  create_container :: "'st \<Rightarrow> exn option \<times> 'st"
  upload_blob :: "string \<Rightarrow> bytes \<Rightarrow> 'st \<Rightarrow> exn option \<times> 'st"

text \<open>
  The storage account client built from the connection string.
  \<open>get_container_client\<close> raises on a container name it does not accept, and
  \<open>bsc.credential.account_key\<close> raises when the credential carries no account key.
\<close>

record 'st blob_service =
  account_name :: string
  account_key :: "exn + string"
  get_container_client :: "string \<Rightarrow> exn + 'st container_client"

text \<open>
  \<open>_upload_with_sas\<close>. \<open>conn_str\<close> and \<open>container\<close> are the two module constants read
  from the environment; building the client and signing are the library's and may
  raise; \<open>now\<close> is the clock in seconds. The \<open>try\<close> around \<open>create_container\<close> discards
  any exception. The key is read and the URL signed after the blob is stored.
\<close>

definition upload_with_sas ::
  "string \<Rightarrow> string \<Rightarrow> (string \<Rightarrow> exn + 'st blob_service) \<Rightarrow>
   (string \<Rightarrow> string \<Rightarrow> string \<Rightarrow> string \<Rightarrow> nat \<Rightarrow> exn + string) \<Rightarrow> nat \<Rightarrow>
   string \<Rightarrow> bytes \<Rightarrow> 'st \<Rightarrow> (exn + string) \<times> 'st" where
  "upload_with_sas conn_str container from_connection_string generate_blob_sas now name data st =
     (if conn_str = [] then
        (Inl (ValueError ''AZURE_STORAGE_CONNECTION_STRING not configured.''), st)
      else
        (case from_connection_string conn_str of
           Inl e \<Rightarrow> (Inl e, st)
         | Inr bsc \<Rightarrow>
             (case get_container_client bsc container of
                Inl e \<Rightarrow> (Inl e, st)
              | Inr client \<Rightarrow>
                  (let (_, st1) = create_container client st;
                       (r, st2) = upload_blob client name data st1
                   in case r of
                        Some e \<Rightarrow> (Inl e, st2)
                      | None \<Rightarrow>
                          (let acc_name = account_name bsc
                           in case account_key bsc of
                                Inl e \<Rightarrow> (Inl e, st2)
                              | Inr acc_key \<Rightarrow>
                                  (case generate_blob_sas acc_name container name acc_key
                                          (now + 24 * 3600) of
                                     Inl e \<Rightarrow> (Inl e, st2)
                                   | Inr sas \<Rightarrow>
                                       (Inr (''https://'' @ acc_name
                                             @ ''.blob.core.windows.net/'' @ container
                                             @ ''/'' @ name @ ''?'' @ sas), st2)))))))"

section \<open>ReportPipeline\<close>

record http_response =
  status_code :: nat
  resp_body :: string
  resp_headers :: "(string \<times> string) list"

text \<open>
  Everything \<open>main\<close> takes from outside the module: the two environment settings, the
  clock and its formatting, and the library calls of each stage.
\<close>

record ('page, 'st) env =
  env_conn_str :: string
  env_container :: string
  env_utcnow :: nat
  env_strftime :: "nat \<Rightarrow> string"
  env_json_dumps :: "(string \<times> string) list \<Rightarrow> string"
  env_decoder :: "bytes \<Rightarrow> string \<Rightarrow> exn + part list"
  env_read_excel :: "bytes \<Rightarrow> exn + dataframe"
  env_float_text :: "string \<Rightarrow> pyfloat option"
  env_str_num :: "real \<Rightarrow> string"
  env_round2 :: "pyfloat \<Rightarrow> pyfloat"
  env_render_pdf :: "sc_cell list list \<Rightarrow> exn + bytes"
  env_load_docx :: "bytes \<Rightarrow> exn + document"
  env_save_docx :: "document \<Rightarrow> bytes"
  env_format_2f :: "pyfloat \<Rightarrow> string"
  env_read_pdf :: "bytes \<Rightarrow> exn + 'page list"
  env_write_pdf :: "'page list \<Rightarrow> bytes"
  env_connect :: "string \<Rightarrow> exn + 'st blob_service"
  env_sign :: "string \<Rightarrow> string \<Rightarrow> string \<Rightarrow> string \<Rightarrow> nat \<Rightarrow> exn + string"

definition upload :: "('page, 'st) env \<Rightarrow> string \<Rightarrow> bytes \<Rightarrow> 'st \<Rightarrow> (exn + string) \<times> 'st" where
  "upload env name data st =
     upload_with_sas (env_conn_str env) (env_container env) (env_connect env) (env_sign env)
       (env_utcnow env) name data st"

text \<open>The last stage: both uploads under time-stamped names, then the response.\<close>

definition publish ::
  "('page, 'st) env \<Rightarrow> bytes \<Rightarrow> bytes \<Rightarrow> 'st \<Rightarrow> (exn + http_response) \<times> 'st" where
  "publish env final_pdf filled_docx_bytes st =
     (let ts = env_strftime env (env_utcnow env);
          pdf_name = ''CJ_Report_'' @ ts @ ''.pdf'';
          docx_name = ''CJ_Narrative_'' @ ts @ ''.docx''
      in case upload env pdf_name final_pdf st of
           (Inl e, st1) \<Rightarrow> (Inl e, st1)
         | (Inr pdf_url, st1) \<Rightarrow>
             (case upload env docx_name filled_docx_bytes st1 of
                (Inl e, st2) \<Rightarrow> (Inl e, st2)
              | (Inr docx_url, st2) \<Rightarrow>
                  (Inr \<lparr>status_code = 200,
                        resp_body = env_json_dumps env
                          [(''pdf_url'', pdf_url), (''narrative_docx_url'', docx_url)],
                        resp_headers = [(''Content-Type'', ''application/json'')]\<rparr>,
                   st2)))"

text \<open>The stages after both required parts were found.\<close>

definition assemble ::
  "('page, 'st) env \<Rightarrow> (string \<rightharpoonup> upload) \<Rightarrow> upload \<Rightarrow> upload \<Rightarrow> 'st \<Rightarrow>
   (exn + http_response) \<times> 'st" where
  "assemble env files excel word_template st =
     (let excel_bytes = content excel;
          word_bytes = content word_template;
          cover_bytes = map_option content (files ''cover_pdf'')
      in case read_scores_from_excel (env_read_excel env) (env_float_text env) (env_str_num env)
                excel_bytes of
           Inl e \<Rightarrow> (Inl e, st)
         | Inr (cats, scores, overall) \<Rightarrow>
             (let score_map = dict_of (zip cats scores)
              in case build_scorecard_pdf (env_render_pdf env) (env_round2 env) cats scores overall of
                   Inl e \<Rightarrow> (Inl e, st)
                 | Inr scorecard \<Rightarrow>
                     (case fill_word_scores (env_load_docx env) (env_save_docx env)
                             (env_format_2f env) word_bytes score_map of
                        Inl e \<Rightarrow> (Inl e, st)
                      | Inr filled_docx_bytes \<Rightarrow>
                          (let narr_bytes = map_option content (files ''narrative_pdf'')
                           in case merge_pdfs (env_read_pdf env) (env_write_pdf env)
                                     cover_bytes scorecard narr_bytes of
                                Inl e \<Rightarrow> (Inl e, st)
                              | Inr final_pdf \<Rightarrow> publish env final_pdf filled_docx_bytes st))))"

text \<open>The body of the \<open>try\<close> in \<open>main\<close>: the response it returns or the exception raised.\<close>

definition main_try ::
  "('page, 'st) env \<Rightarrow> http_request \<Rightarrow> 'st \<Rightarrow> (exn + http_response) \<times> 'st" where
  "main_try env req st =
     (case parse_multipart (env_decoder env) req of
        Inl e \<Rightarrow> (Inl e, st)
      | Inr files \<Rightarrow>
          (case (files ''excel'', files ''word_template'') of
             (Some excel, Some word_template) \<Rightarrow> assemble env files excel word_template st
           | _ \<Rightarrow> (Inr \<lparr>status_code = 400,
                        resp_body = ''Missing 'excel' or 'word_template'' @ [CHR 0x27],
                        resp_headers = []\<rparr>, st)))"

text \<open>\<open>main\<close>: \<open>except Exception\<close> turns every exception into a response with status
  500 and the exception's message as body.\<close>

definition main :: "('page, 'st) env \<Rightarrow> http_request \<Rightarrow> 'st \<Rightarrow> http_response \<times> 'st" where
  "main env req st =
     (case main_try env req st of
        (Inr resp, st') \<Rightarrow> (resp, st')
      | (Inl e, st') \<Rightarrow>
          (\<lparr>status_code = 500, resp_body = exn_str e, resp_headers = []\<rparr>, st'))"

section \<open>Example inputs\<close>

text \<open>
  Concrete requests, worksheets, documents and small stand-ins for the libraries, on
  which the theorems below are evaluated.
\<close>

definition ex_part_a :: part where
  "ex_part_a = \<lparr>part_headers =
       [''Content-Disposition'' \<mapsto> ''form-data; name=\"excel\"; filename=\"a.xlsx\"''],
     part_content = ''A''\<rparr>"

definition ex_part_unnamed :: part where
  "ex_part_unnamed = \<lparr>part_headers = [''Content-Disposition'' \<mapsto> ''form-data; filename=\"x.bin\"''],
     part_content = ''X''\<rparr>"

definition ex_part_b :: part where
  "ex_part_b = \<lparr>part_headers =
       [''Content-Disposition'' \<mapsto> ''form-data; name=\"excel\"; filename=\"b.xlsx\"''],
     part_content = ''B''\<rparr>"

text \<open>A part with a filename parameter only, whose quoted value contains a semicolon.\<close>

definition ex_part_quoted :: part where
  "ex_part_quoted = \<lparr>part_headers =
       [''Content-Disposition'' \<mapsto> ''form-data; filename=\"x; name=excel\"''],
     part_content = ''Q''\<rparr>"

text \<open>A decoder that knows two well-formed bodies and rejects every other.\<close>

definition ex_decoder :: "bytes \<Rightarrow> string \<Rightarrow> exn + part list" where
  "ex_decoder body ctype =
     (if body = ''three parts'' then Inr [ex_part_a, ex_part_unnamed, ex_part_b]
      else if body = ''quoted'' then Inr [ex_part_a, ex_part_quoted]
      else Inl (LibraryError ''Unable to locate boundary''))"



definition ex_req_no_header :: http_request where
  "ex_req_no_header = \<lparr>req_headers = Map.empty, req_body = ''three parts''\<rparr>"

definition ex_req_json :: http_request where
  "ex_req_json = \<lparr>req_headers = [''content-type'' \<mapsto> ''application/json''],
     req_body = ''three parts''\<rparr>"

definition ex_req_garbled :: http_request where
  "ex_req_garbled = \<lparr>req_headers = [''Content-Type'' \<mapsto> ''multipart/form-data; boundary=xyz''],
     req_body = ''garbled''\<rparr>"

text \<open>The worksheet of the specification's example, and two small ones.\<close>

definition ex_frame :: dataframe where
  "ex_frame = \<lparr>df_columns = [StrLabel ''Category'', StrLabel ''Average Score''],
     df_rows = [[Text ''Cleanliness'', Number 4.5], [Text ''Staff'', Number 3.8],
                [Text ''Overall Score'', Number 4.1]]\<rparr>"

definition ex_frame_notes :: dataframe where
  "ex_frame_notes = \<lparr>df_columns = [StrLabel ''Notes''], df_rows = [[Text ''draft'']]\<rparr>"

definition ex_frame_category_only :: dataframe where
  "ex_frame_category_only = \<lparr>df_columns = [StrLabel ''Category''], df_rows = [[Text ''Staff'']]\<rparr>"

definition ex_frame_empty_score :: dataframe where
  "ex_frame_empty_score = \<lparr>df_columns = [StrLabel ''Category'', StrLabel ''Average Score''],
     df_rows = [[Text ''Staff'', Missing]]\<rparr>"

definition ex_read_excel :: "bytes \<Rightarrow> exn + dataframe" where
  "ex_read_excel b =
     (if b = ''scores'' then Inr ex_frame
      else if b = ''category only'' then Inr ex_frame_category_only
      else Inl (ValueError ''Worksheet named 'Summary Dashboard' not found''))"

definition ex_float_text :: "string \<Rightarrow> pyfloat option" where
  "ex_float_text s =
     (if s = ''4.5'' then Some (Fin 4.5) else if s = ''nan'' then Some NaN else None)"

definition ex_str_num :: "real \<Rightarrow> string" where
  "ex_str_num x = (if x = 4.5 then ''4.5'' else if x = 3.8 then ''3.8'' else ''4.1'')"

definition ex_format_2f :: "pyfloat \<Rightarrow> string" where
  "ex_format_2f v =
     (if v = Fin 4.5 then ''4.50'' else if v = Fin 3.8 then ''3.80''
      else if v = Fin 4.1 then ''4.10'' else if v = Fin 5 then ''5.00'' else ''nan'')"

definition ex_round2 :: "pyfloat \<Rightarrow> pyfloat" where
  "ex_round2 v = v"

definition ex_render_pdf :: "sc_cell list list \<Rightarrow> exn + bytes" where
  "ex_render_pdf data = Inr ''scorecard''"

text \<open>
  Templates. The first has a two-column first table and a second table; the others
  have a single column, a row without cells, a second cell shared by two rows (a
  vertical merge), and a row whose two positions are one cell (a horizontal merge).
\<close>

definition ex_text :: "nat \<Rightarrow> string" where
  "ex_text = (\<lambda>c. [])(0 := ''Category'', 1 := ''Score'', 2 := '' Staff '', 3 := ''?'',
     4 := ''Location'', 5 := ''?'', 6 := ''CLEANLINESS'', 7 := ''?'')"

definition ex_table :: table where
  "ex_table = \<lparr>tbl_rows = [[0, 1], [2, 3], [4, 5], [6, 7]], tbl_text = ex_text\<rparr>"

definition ex_table_other :: table where
  "ex_table_other = \<lparr>tbl_rows = [[0, 1]], tbl_text = (\<lambda>c. [])(0 := ''Staff'', 1 := ''unrelated'')\<rparr>"

definition ex_doc :: document where
  "ex_doc = \<lparr>doc_tables = [ex_table, ex_table_other], doc_rest = ''narrative''\<rparr>"

definition ex_doc_filled :: document where
  "ex_doc_filled = \<lparr>doc_tables =
       [ex_table\<lparr>tbl_text := ex_text(3 := ''3.80'', 7 := ''4.50'')\<rparr>, ex_table_other],
     doc_rest = ''narrative''\<rparr>"

definition ex_doc_narrow :: document where
  "ex_doc_narrow = \<lparr>doc_tables =
       [\<lparr>tbl_rows = [[0], [1]], tbl_text = (\<lambda>c. [])(0 := ''Category'', 1 := ''Staff'')\<rparr>],
     doc_rest = ''narrow''\<rparr>"

definition ex_doc_gap :: document where
  "ex_doc_gap = \<lparr>doc_tables =
       [\<lparr>tbl_rows = [[0, 1], []], tbl_text = (\<lambda>c. [])(0 := ''Category'', 1 := ''Score'')\<rparr>],
     doc_rest = ''gap''\<rparr>"

definition ex_text_shared :: "nat \<Rightarrow> string" where
  "ex_text_shared = (\<lambda>c. [])(0 := ''Category'', 1 := ''Score'', 2 := ''Staff'', 3 := ''?'',
     4 := ''Location'')"

definition ex_doc_shared :: document where
  "ex_doc_shared = \<lparr>doc_tables =
       [\<lparr>tbl_rows = [[0, 1], [2, 3], [4, 3]], tbl_text = ex_text_shared\<rparr>],
     doc_rest = ''shared''\<rparr>"

definition ex_text_merged :: "nat \<Rightarrow> string" where
  "ex_text_merged = (\<lambda>c. [])(0 := ''Category'', 1 := ''Score'', 2 := ''Staff'')"

definition ex_doc_merged :: document where
  "ex_doc_merged = \<lparr>doc_tables = [\<lparr>tbl_rows = [[0, 1], [2, 2]], tbl_text = ex_text_merged\<rparr>],
     doc_rest = ''merged''\<rparr>"

definition ex_doc_merged_once :: document where
  "ex_doc_merged_once = \<lparr>doc_tables =
       [\<lparr>tbl_rows = [[0, 1], [2, 2]], tbl_text = ex_text_merged(2 := ''3.80'')\<rparr>],
     doc_rest = ''merged''\<rparr>"

definition ex_doc_plain :: document where
  "ex_doc_plain = \<lparr>doc_tables = [], doc_rest = ''no tables''\<rparr>"

text \<open>
  A toy document format: the cell texts of every row of every table as they stand at
  the row's positions, then the rest. The loader recognises the documents above.
\<close>

definition ex_save_table :: "table \<Rightarrow> bytes" where
  "ex_save_table t =
     concat (map (\<lambda>r. concat (map (\<lambda>c. tbl_text t c @ '','') r) @ '';'') (tbl_rows t)) @ ''/''"

definition ex_save_docx :: "document \<Rightarrow> bytes" where
  "ex_save_docx d = concat (map ex_save_table (doc_tables d)) @ doc_rest d"

definition ex_load_docx :: "bytes \<Rightarrow> exn + document" where
  "ex_load_docx b =
     (case filter (\<lambda>d. ex_save_docx d = b)
             [ex_doc, ex_doc_filled, ex_doc_narrow, ex_doc_gap, ex_doc_shared, ex_doc_merged,
              ex_doc_merged_once, ex_doc_plain] of
        [] \<Rightarrow> Inl (LibraryError ''Package not found'')
      | d # _ \<Rightarrow> Inr d)"

text \<open>A toy page format: the pages of a document, each followed by a bar.\<close>

definition ex_write_pdf :: "string list \<Rightarrow> bytes" where
  "ex_write_pdf pages = concat (map (\<lambda>p. p @ ''|'') pages)"

definition ex_read_pdf :: "bytes \<Rightarrow> exn + string list" where
  "ex_read_pdf b =
     (if b = ''cover'' then Inr [''cover 1'', ''cover 2'']
      else if b = ''scorecard'' then Inr [''scorecard 1'']
      else if b = ''narrative'' then Inr [''narrative 1'', ''narrative 2'', ''narrative 3'']
      else Inl (LibraryError ''EOF marker not found''))"

text \<open>
  A toy storage service: containers by name, each with its blobs. Creating a container
  that exists raises; uploading needs the container. The second client's provisioning
  call always fails with a transient error that is not "already exists".
\<close>

type_synonym store = "(string \<times> (string \<times> bytes) list) list"

definition ex_create :: "string \<Rightarrow> store \<Rightarrow> exn option \<times> store" where
  "ex_create c st =
     (case map_of st c of
        Some _ \<Rightarrow> (Some ResourceExistsError, st)
      | None \<Rightarrow> (None, dict_set c [] st))"

definition ex_upload :: "string \<Rightarrow> string \<Rightarrow> bytes \<Rightarrow> store \<Rightarrow> exn option \<times> store" where
  "ex_upload c n d st =
     (case map_of st c of
        Some blobs \<Rightarrow> (None, dict_set c (dict_set n d blobs) st)
      | None \<Rightarrow> (Some (LibraryError ''The specified container does not exist.''), st))"

definition ex_client :: "string \<Rightarrow> exn + store container_client" where
  "ex_client c =
     (if c = [] then Inl (ValueError ''Please specify a container name.'')
      else Inr \<lparr>create_container = ex_create c, upload_blob = ex_upload c\<rparr>)"

definition ex_service :: "store blob_service" where
  "ex_service = \<lparr>account_name = ''acct'', account_key = Inr ''key'',
     get_container_client = ex_client\<rparr>"

definition ex_busy_create :: "store \<Rightarrow> exn option \<times> store" where
  "ex_busy_create st = (Some (LibraryError ''The server is busy.''), st)"

definition ex_busy_client :: "string \<Rightarrow> exn + store container_client" where
  "ex_busy_client c = Inr \<lparr>create_container = ex_busy_create, upload_blob = ex_upload c\<rparr>"

definition ex_busy_service :: "store blob_service" where
  "ex_busy_service = \<lparr>account_name = ''acct'', account_key = Inr ''key'',
     get_container_client = ex_busy_client\<rparr>"

text \<open>A client whose credential is a token: it has no account key to read.\<close>

definition ex_token_service :: "store blob_service" where
  "ex_token_service = \<lparr>account_name = ''acct'',
     account_key = Inl (AttributeError ''object has no attribute 'account_key' ''),
     get_container_client = ex_client\<rparr>"

definition ex_connect :: "string \<Rightarrow> exn + store blob_service" where
  "ex_connect s =
     (if s = ''main'' then Inr ex_service
      else if s = ''busy'' then Inr ex_busy_service
      else if s = ''token'' then Inr ex_token_service
      else Inl (ValueError ''Connection string is either blank or malformed.''))"

definition ex_sign :: "string \<Rightarrow> string \<Rightarrow> string \<Rightarrow> string \<Rightarrow> nat \<Rightarrow> exn + string" where
  "ex_sign acc container name key expiry = Inr ''sp=r&sig=s''"

definition ex_strftime :: "nat \<Rightarrow> string" where
  "ex_strftime t = ''20240101-000000''"

definition ex_json_dumps :: "(string \<times> string) list \<Rightarrow> string" where
  "ex_json_dumps kvs = concat (map (\<lambda>(k, v). k @ ''='' @ v @ '';'') kvs)"

definition ex_env :: "(string, store) env" where
  "ex_env = \<lparr>env_conn_str = ''main'', env_container = ''reports'', env_utcnow = 0,
     env_strftime = ex_strftime, env_json_dumps = ex_json_dumps, env_decoder = ex_decoder,
     env_read_excel = ex_read_excel, env_float_text = ex_float_text, env_str_num = ex_str_num,
     env_round2 = ex_round2, env_render_pdf = ex_render_pdf, env_load_docx = ex_load_docx,
     env_save_docx = ex_save_docx, env_format_2f = ex_format_2f, env_read_pdf = ex_read_pdf,
     env_write_pdf = ex_write_pdf, env_connect = ex_connect, env_sign = ex_sign\<rparr>"

section \<open>Properties of the string helpers\<close>

text \<open>\<open>startswith\<close> is the prefix test and \<open>contains\<close> the substring test.\<close>

lemma startswith_iff: "startswith s p \<longleftrightarrow> (\<exists>b. s = p @ b)"
  unfolding startswith_def
  by (metis append_eq_conv_conj append_take_drop_id)

lemma contains_iff: "contains p s \<longleftrightarrow> (\<exists>a b. s = a @ p @ b)"
proof (induction s)
  case Nil
  then show ?case by auto
next
  case (Cons c cs)
  show ?case
  proof
    assume "contains p (c # cs)"
    then consider "startswith (c # cs) p" | "contains p cs" by auto
    then show "\<exists>a b. c # cs = a @ p @ b"
    proof cases
      case 1
      then obtain b where "c # cs = p @ b" by (auto simp: startswith_iff)
      then have "c # cs = [] @ p @ b" by simp
      then show ?thesis by blast
    next
      case 2
      then obtain a b where "cs = a @ p @ b" using Cons.IH by auto
      then have "c # cs = (c # a) @ p @ b" by simp
      then show ?thesis by blast
    qed
  next
    assume "\<exists>a b. c # cs = a @ p @ b"
    then obtain a b where ab: "c # cs = a @ p @ b" by auto
    show "contains p (c # cs)"
    proof (cases a)
      case Nil
      with ab have "startswith (c # cs) p" by (auto simp: startswith_iff)
      then show ?thesis by simp
    next
      case (Cons x a')
      with ab have "cs = a' @ p @ b" by simp
      then have "contains p cs" using Cons.IH by auto
      then show ?thesis by simp
    qed
  qed
qed

section \<open>Properties of MultipartExtractor and of the error response\<close>

lemmas str_eval = startswith_def strip_def strip_char_def is_space_def after_eq_def
  lower_def lower_char_def









lemma main_on_parse_error:
  "parse_multipart (env_decoder env) req = Inl e \<Longrightarrow>
   main env req st = (\<lparr>status_code = 500, resp_body = exn_str e, resp_headers = []\<rparr>, st)"
  by (simp add: main_def main_try_def)

text \<open>
  C1 (as amended). A request whose Content-Type header is missing (under both spellings
  the source looks up), or does not contain \<open>multipart/form-data\<close>, or whose body the
  decoder rejects, makes \<open>_parse_multipart\<close> raise; \<open>main\<close> catches the exception and
  answers with status 500 and the exception's message as body, and the storage is not
  touched. The status is 500, not 400.
\<close>

theorem malformed_request_status_500:
  assumes "ctype = py_or (req_headers req ''Content-Type'') (req_headers req ''content-type'')"
    and "ctype = None
         \<or> (\<exists>ct. ctype = Some ct \<and> \<not> contains ''multipart/form-data'' ct)
         \<or> (\<exists>ct e. ctype = Some ct \<and> env_decoder env (req_body req) ct = Inl e)"
  shows "\<exists>e. parse_multipart (env_decoder env) req = Inl e
           \<and> main env req st = (\<lparr>status_code = 500, resp_body = exn_str e, resp_headers = []\<rparr>, st)"
proof -
  have "\<exists>e. parse_multipart (env_decoder env) req = Inl e"
    using assms by (auto simp: parse_multipart_def split: option.splits sum.splits)
  then obtain e where "parse_multipart (env_decoder env) req = Inl e" ..
  then show ?thesis
    by (simp add: main_on_parse_error)
qed

theorem malformed_request_status_500_witness:
  "main ex_env ex_req_no_header [] =
     (\<lparr>status_code = 500, resp_body = ''Content-Type must be multipart/form-data'', resp_headers = []\<rparr>, [])
   \<and> main ex_env ex_req_json [] =
     (\<lparr>status_code = 500, resp_body = ''Content-Type must be multipart/form-data'', resp_headers = []\<rparr>, [])
   \<and> main ex_env ex_req_garbled [] =
     (\<lparr>status_code = 500, resp_body = ''Unable to locate boundary'', resp_headers = []\<rparr>, [])"
proof -
  have h1: "py_or (req_headers ex_req_no_header ''Content-Type'') (req_headers ex_req_no_header ''content-type'') = None"
    by (simp add: ex_req_no_header_def)
  have h2: "py_or (req_headers ex_req_json ''Content-Type'') (req_headers ex_req_json ''content-type'') = Some ''application/json''"
    by (simp add: ex_req_json_def)
  have c2: "\<not> contains ''multipart/form-data'' ''application/json''"
    by (simp add: startswith_def)
  have h3: "py_or (req_headers ex_req_garbled ''Content-Type'') (req_headers ex_req_garbled ''content-type'') = Some ''multipart/form-data; boundary=xyz''"
    by (simp add: ex_req_garbled_def)
  have d3: "env_decoder ex_env (req_body ex_req_garbled) ''multipart/form-data; boundary=xyz'' = Inl (LibraryError ''Unable to locate boundary'')"
    by (simp add: ex_env_def ex_req_garbled_def ex_decoder_def)
  have p1: "parse_multipart (env_decoder ex_env) ex_req_no_header = Inl (ValueError ''Content-Type must be multipart/form-data'')"
    by (simp add: parse_multipart_def h1)
  have p2: "parse_multipart (env_decoder ex_env) ex_req_json = Inl (ValueError ''Content-Type must be multipart/form-data'')"
    by (simp add: parse_multipart_def h2 startswith_def)
  have p3: "parse_multipart (env_decoder ex_env) ex_req_garbled = Inl (LibraryError ''Unable to locate boundary'')"
    by (simp add: parse_multipart_def h3 d3 startswith_def)
  show ?thesis
    using malformed_request_status_500 [OF h1 [symmetric], of ex_env "[]"]
      malformed_request_status_500 [OF h2 [symmetric], of ex_env "[]"]
      malformed_request_status_500 [OF h3 [symmetric], of ex_env "[]"]
      c2 d3 p1 p2 p3
    by auto
qed

text \<open>
  C1 as stated fails: a request with no Content-Type header is answered with a status
  other than 400.
\<close>

theorem malformed_request_status_400_counterexample:
  "status_code (fst (main ex_env ex_req_no_header [])) \<noteq> 400"
  by (simp add: main_def main_try_def parse_multipart_def ex_req_no_header_def)




lemmas part_eval2 = part_name_def part_filename_def disposition_def ex_part_quoted_def ex_part_a_def

text \<open>An ordinary header carries a name parameter, by the specification's reading too.\<close>

lemma ordinary_header_carries_name: "carries_name (disposition ex_part_a)"
  by (simp add: carries_name_def part_eval2 str_eval)


section \<open>Properties of ScoreTableReader\<close>

lemmas frame_eval = read_scores_from_frame_def cols_map_def cols_step_def avg_column_def
  dropna_def

lemma foldl_cols_step_None:
  "foldl cols_step m cs k = None \<longleftrightarrow>
     m k = None \<and> (\<forall>s. StrLabel s \<in> set cs \<longrightarrow> lower (strip s) \<noteq> k)"
  by (induction cs arbitrary: m) (auto simp: cols_step_def split: label.splits)

lemma cols_map_None:
  "cols_map cs k = None \<longleftrightarrow> (\<forall>s. StrLabel s \<in> set cs \<longrightarrow> lower (strip s) \<noteq> k)"
  by (simp add: cols_map_def foldl_cols_step_None)

lemma foldl_cols_step_Some:
  "foldl cols_step m cs k = Some s \<Longrightarrow> m k = Some s \<or> (StrLabel s \<in> set cs \<and> lower (strip s) = k)"
proof (induction cs arbitrary: m)
  case Nil
  then show ?case by simp
next
  case (Cons c cs)
  from Cons.prems have "foldl cols_step (cols_step m c) cs k = Some s" by simp
  then have "cols_step m c k = Some s \<or> (StrLabel s \<in> set cs \<and> lower (strip s) = k)"
    by (rule Cons.IH)
  then show ?case
    by (auto simp: cols_step_def split: label.splits if_splits)
qed

lemma cols_map_Some:
  "cols_map cs k = Some s \<Longrightarrow> StrLabel s \<in> set cs \<and> lower (strip s) = k"
  using foldl_cols_step_Some [of Map.empty cs k s] by (simp add: cols_map_def)

lemma scan_rows_invariant:
  "scan_rows ft sn cs cc ac rs (cats, scores, ov) = Inr (cats', scores', ov') \<Longrightarrow>
   length cats = length scores \<Longrightarrow> \<forall>c \<in> set cats. \<not> contains ''overall'' (lower c) \<Longrightarrow>
   length cats' = length scores' \<and> (\<forall>c \<in> set cats'. \<not> contains ''overall'' (lower c))"
proof (induction rs arbitrary: cats scores ov)
  case Nil
  then show ?case by simp
next
  case (Cons r rs)
  show ?case
  proof (cases "cell_at cs r (StrLabel cc)")
    case None
    with Cons.prems show ?thesis by simp
  next
    case (Some c)
    let ?name = "strip (py_str sn c)"
    let ?val = "to_num ft (cell_at cs r ac)"
    consider (blank) "?name = []"
      | (overall) "?name \<noteq> []" "contains ''overall'' (lower ?name)"
      | (kept) v where "?name \<noteq> []" "\<not> contains ''overall'' (lower ?name)" "?val = Some v"
      | (dropped) "?name \<noteq> []" "\<not> contains ''overall'' (lower ?name)" "?val = None"
      by (cases ?val) auto
    then show ?thesis
    proof cases
      case blank
      with Some Cons.prems(1)
      have "scan_rows ft sn cs cc ac rs (cats, scores, ov) = Inr (cats', scores', ov')"
        by simp
      then show ?thesis using Cons.prems(2,3) by (rule Cons.IH)
    next
      case overall
      with Some Cons.prems(1)
      have "scan_rows ft sn cs cc ac rs
              (cats, scores, case ?val of Some v \<Rightarrow> Some v | None \<Rightarrow> ov) = Inr (cats', scores', ov')"
        by simp
      then show ?thesis using Cons.prems(2,3) by (rule Cons.IH)
    next
      case kept
      with Some Cons.prems(1)
      have "scan_rows ft sn cs cc ac rs (cats @ [?name], scores @ [v], ov) = Inr (cats', scores', ov')"
        by simp
      moreover have "length (cats @ [?name]) = length (scores @ [v])"
        using Cons.prems(2) by simp
      moreover have "\<forall>c \<in> set (cats @ [?name]). \<not> contains ''overall'' (lower c)"
        using Cons.prems(3) kept(2) by simp
      ultimately show ?thesis by (rule Cons.IH)
    next
      case dropped
      with Some Cons.prems(1)
      have "scan_rows ft sn cs cc ac rs (cats, scores, ov) = Inr (cats', scores', ov')"
        by simp
      then show ?thesis using Cons.prems(2,3) by (rule Cons.IH)
    qed
  qed
qed

lemma read_scores_from_frame_rows:
  assumes "read_scores_from_frame ft sn df = Inr (cats, scores, overall)"
  shows "length cats = length scores \<and> (\<forall>c \<in> set cats. \<not> contains ''overall'' (lower c))"
proof -
  from assms obtain cc ac rs where
    "scan_rows ft sn (df_columns df) cc ac rs ([], [], None) = Inr (cats, scores, overall)"
    by (auto simp: read_scores_from_frame_def Let_def split: sum.splits option.splits list.splits)
  then show ?thesis
    using scan_rows_invariant [of ft sn "df_columns df" cc ac rs "[]" "[]" None] by simp
qed

lemma ex_frame_scores:
  "read_scores_from_frame ft sn ex_frame =
     Inr ([''Cleanliness'', ''Staff''], [Fin 4.5, Fin 3.8], Some (Fin 4.1))"
  by (simp add: ex_frame_def frame_eval str_eval)

text \<open>
  C3 (as amended). On the worksheet with the rows ("Cleanliness", 4.5), ("Staff", 3.8),
  ("Overall Score", 4.1) the reader returns the categories "Cleanliness" and "Staff",
  trimmed but in their original case, with the scores 4.5 and 3.8, and the overall score
  4.1. On every worksheet, the returned categories and scores pair up one to one, and no
  returned category contains "overall" in any case.
\<close>

theorem overall_row_excluded:
  "(read_excel b = Inr ex_frame \<longrightarrow>
      read_scores_from_excel read_excel float_text str_num b =
        Inr ([''Cleanliness'', ''Staff''], [Fin 4.5, Fin 3.8], Some (Fin 4.1)))
   \<and> (\<forall>cats scores overall.
        read_scores_from_excel read_excel float_text str_num b = Inr (cats, scores, overall) \<longrightarrow>
        length cats = length scores \<and> (\<forall>c \<in> set cats. \<not> contains ''overall'' (lower c)))"
proof -
  have "length cats = length scores \<and> (\<forall>c \<in> set cats. \<not> contains ''overall'' (lower c))"
    if "read_scores_from_excel read_excel float_text str_num b = Inr (cats, scores, overall)"
    for cats scores overall
    using that read_scores_from_frame_rows
    by (auto simp: read_scores_from_excel_def split: sum.splits)
  then show ?thesis
    by (simp add: read_scores_from_excel_def ex_frame_scores)
qed

theorem overall_row_excluded_witness:
  "read_scores_from_excel ex_read_excel ex_float_text ex_str_num ''scores'' =
     Inr ([''Cleanliness'', ''Staff''], [Fin 4.5, Fin 3.8], Some (Fin 4.1))
   \<and> \<not> contains ''overall'' (lower ''Cleanliness'') \<and> \<not> contains ''overall'' (lower ''Staff'')"
proof -
  have r: "ex_read_excel ''scores'' = Inr ex_frame"
    by (simp add: ex_read_excel_def)
  show ?thesis
    using overall_row_excluded [of ex_read_excel "''scores''" ex_float_text ex_str_num] r
    by auto
qed

text \<open>
  C3 as stated fails: on that worksheet the returned rows are not the lower-cased
  ("cleanliness", 4.5), ("staff", 3.8).
\<close>

theorem lowercased_rows_counterexample:
  "read_scores_from_excel ex_read_excel ex_float_text ex_str_num ''scores'' \<noteq>
     Inr ([''cleanliness'', ''staff''], [Fin 4.5, Fin 3.8], Some (Fin 4.1))"
  by (simp add: read_scores_from_excel_def ex_read_excel_def ex_frame_scores)

text \<open>
  C9. A worksheet with fewer than two columns, none of them named "average score" after
  trimming and lower-casing, makes the reader raise the \<open>IndexError\<close> of the positional
  fallback, whether or not a "category" column is present: the fallback is evaluated
  before the category column is checked.
\<close>

theorem narrow_sheet_index_error:
  assumes "read_excel b = Inr df"
    and "length (df_columns df) < 2"
    and "\<forall>s. StrLabel s \<in> set (df_columns df) \<longrightarrow> lower (strip s) \<noteq> ''average score''"
  shows "read_scores_from_excel read_excel float_text str_num b = Inl IndexError"
proof -
  have "cols_map (df_columns df) ''average score'' = None"
    using assms(3) by (simp add: cols_map_None)
  then have "avg_column (cols_map (df_columns df)) (df_columns df) = Inl IndexError"
    using assms(2) by (simp add: avg_column_def)
  then show ?thesis
    using assms(1) by (simp add: read_scores_from_excel_def read_scores_from_frame_def)
qed

theorem narrow_sheet_index_error_witness:
  "cols_map (df_columns ex_frame_category_only) ''category'' = Some ''Category''
   \<and> read_scores_from_excel ex_read_excel ex_float_text ex_str_num ''category only'' = Inl IndexError"
proof -
  have r: "ex_read_excel ''category only'' = Inr ex_frame_category_only"
    by (simp add: ex_read_excel_def)
  have l: "length (df_columns ex_frame_category_only) < 2"
    by (simp add: ex_frame_category_only_def)
  have a: "\<forall>s. StrLabel s \<in> set (df_columns ex_frame_category_only) \<longrightarrow> lower (strip s) \<noteq> ''average score''"
    by (simp add: ex_frame_category_only_def str_eval)
  have c: "cols_map (df_columns ex_frame_category_only) ''category'' = Some ''Category''"
    by (simp add: ex_frame_category_only_def cols_map_def cols_step_def str_eval)
  show ?thesis
    using narrow_sheet_index_error [where read_excel = ex_read_excel and float_text = ex_float_text
        and str_num = ex_str_num, OF r l a] c by simp
qed

text \<open>
  C5 at the worksheet with the single column "Notes": no column is named "category",
  yet the reader raises \<open>IndexError\<close>, not the \<open>ValueError\<close> for the missing column.
\<close>

theorem notes_sheet_raises_index_error:
  "cols_map (df_columns ex_frame_notes) ''category'' = None
   \<and> read_scores_from_frame float_text str_num ex_frame_notes = Inl IndexError"
  by (simp add: ex_frame_notes_def frame_eval str_eval)

text \<open>
  Where the score column can be resolved (an "average score" column, or at least two
  columns), a missing "category" column raises the \<open>ValueError\<close>; and the score column
  is the "average score" column if there is one, the second column otherwise.
\<close>

lemma missing_category_value_error:
  assumes "cols_map (df_columns df) ''category'' = None"
    and "2 \<le> length (df_columns df) \<or> cols_map (df_columns df) ''average score'' \<noteq> None"
  shows "read_scores_from_frame float_text str_num df =
           Inl (ValueError ''Could not find 'Category' column in Summary Dashboard.'')"
proof -
  have "\<exists>l. avg_column (cols_map (df_columns df)) (df_columns df) = Inr l"
  proof (cases "cols_map (df_columns df) ''average score''")
    case None
    with assms(2) show ?thesis by (simp add: avg_column_def)
  next
    case (Some s)
    then have "lower (strip s) = ''average score''" by (simp add: cols_map_Some)
    then have "s \<noteq> []" by (auto simp: lower_def strip_def)
    with Some show ?thesis by (cases s) (simp_all add: avg_column_def)
  qed
  then show ?thesis
    using assms(1) by (auto simp: read_scores_from_frame_def)
qed

lemma score_column_resolution:
  "avg_column (cols_map cs) cs =
     (case cols_map cs ''average score'' of
        Some s \<Rightarrow> Inr (StrLabel s)
      | None \<Rightarrow> if length cs < 2 then Inl IndexError else Inr (cs ! 1))"
proof (cases "cols_map cs ''average score''")
  case None
  then show ?thesis by (simp add: avg_column_def)
next
  case (Some s)
  then have "lower (strip s) = ''average score''" by (simp add: cols_map_Some)
  then have "s \<noteq> []" by (auto simp: lower_def strip_def)
  with Some show ?thesis by (cases s) (simp_all add: avg_column_def)
qed

text \<open>
  C7 at the worksheet with the single row ("Staff", empty cell): the empty cell is read
  as not-a-number, \<open>float\<close> accepts it, and the row is returned with the score
  not-a-number instead of being omitted.
\<close>

theorem empty_score_cell_kept_as_nan:
  "to_num float_text (Some Missing) = Some NaN
   \<and> read_scores_from_frame float_text str_num ex_frame_empty_score = Inr ([''Staff''], [NaN], None)"
  by (simp add: ex_frame_empty_score_def frame_eval str_eval)

text \<open>
  A row on whose score cell \<open>float\<close> raises, and whose category does not contain
  "overall", leaves the loop's state unchanged.
\<close>

lemma unparsable_score_row_skipped:
  assumes "cell_at cs r (StrLabel cat_col) = Some c"
    and "to_num float_text (cell_at cs r avg_col) = None"
    and "\<not> contains ''overall'' (lower (strip (py_str str_num c)))"
  shows "scan_rows float_text str_num cs cat_col avg_col (r # rs) (cats, scores, overall) =
         scan_rows float_text str_num cs cat_col avg_col rs (cats, scores, overall)"
  using assms by (simp add: Let_def)


section \<open>Properties of TemplateFiller\<close>

lemma foldl_norm_None:
  "foldl norm_step m kvs key = None \<longleftrightarrow>
     m key = None \<and> (\<forall>(k, v) \<in> set kvs. lower (strip k) \<noteq> key)"
  by (induction kvs arbitrary: m) (auto simp: norm_step_def)

lemma norm_map_None:
  "norm_map score_map key = None \<longleftrightarrow> (\<forall>(k, v) \<in> set score_map. lower (strip k) \<noteq> key)"
  by (simp add: norm_map_def foldl_norm_None)

lemma foldl_norm_Some:
  "foldl norm_step m kvs key = Some v \<Longrightarrow>
     m key = Some v \<or> (\<exists>k. (k, v) \<in> set kvs \<and> lower (strip k) = key)"
proof (induction kvs arbitrary: m)
  case Nil
  then show ?case by simp
next
  case (Cons kv kvs)
  from Cons.prems have "foldl norm_step (norm_step m kv) kvs key = Some v"
    by simp
  then have "norm_step m kv key = Some v \<or> (\<exists>k. (k, v) \<in> set kvs \<and> lower (strip k) = key)"
    by (rule Cons.IH)
  then show ?case
    by (cases kv) (auto simp: norm_step_def split: if_splits)
qed

lemma norm_map_Some:
  "norm_map score_map key = Some v \<Longrightarrow> \<exists>k. (k, v) \<in> set score_map \<and> lower (strip k) = key"
  using foldl_norm_Some [of Map.empty score_map key v] by (simp add: norm_map_def)

text \<open>Writes applied in order: each cell ends with the last value written to it.\<close>

lemma apply_writes_at:
  "apply_writes ws tx c = (case map_of (rev ws) c of None \<Rightarrow> tx c | Some v \<Rightarrow> v)"
proof (induction ws arbitrary: tx)
  case Nil
  then show ?case by (simp add: apply_writes_def)
next
  case (Cons w ws)
  have "apply_writes (w # ws) tx c = apply_writes ws (tx(fst w := snd w)) c"
    by (simp add: apply_writes_def)
  also have "\<dots> = (case map_of (rev ws) c of None \<Rightarrow> (tx(fst w := snd w)) c | Some v \<Rightarrow> v)"
    by (rule Cons.IH)
  also have "\<dots> = (case map_of (rev (w # ws)) c of None \<Rightarrow> tx c | Some v \<Rightarrow> v)"
    by (cases w) (simp add: map_add_def split: option.splits)
  finally show ?case .
qed


lemma apply_writes_Cons: "apply_writes (w # ws) tx = apply_writes ws (tx(fst w := snd w))"
  by (simp add: apply_writes_def)

lemma apply_writes_other: "c \<notin> fst ` set ws \<Longrightarrow> apply_writes ws tx c = tx c"
proof -
  assume "c \<notin> fst ` set ws"
  then have "map_of (rev ws) c = None"
    by (simp add: map_of_eq_None_iff)
  then show ?thesis by (simp add: apply_writes_at)
qed

lemma apply_writes_same:
  assumes "(c, v) \<in> set ws" and "\<forall>v'. (c, v') \<in> set ws \<longrightarrow> v' = v"
  shows "apply_writes ws tx c = v"
proof -
  from assms(1) have "c \<in> fst ` set (rev ws)" by force
  then have "map_of (rev ws) c \<noteq> None"
    by (simp only: map_of_eq_None_iff not_not)
  then obtain u where u: "map_of (rev ws) c = Some u" by blast
  then have "(c, u) \<in> set ws" by (auto dest: map_of_SomeD)
  with assms(2) have "u = v" by simp
  with u show ?thesis by (simp add: apply_writes_at)
qed

lemma fill_row_score:
  "fill_row nrm format_2f tx r =
     (if r = [] then Inl IndexError
      else case row_score nrm tx r of
             None \<Rightarrow> Inr tx
           | Some v \<Rightarrow> if length r < 2 then Inl IndexError else Inr (tx(r ! 1 := format_2f v)))"
  by (cases r) (auto simp: fill_row_def row_score_def split: option.splits)

lemma row_score_upd: "c \<notin> set (take 1 r) \<Longrightarrow> row_score nrm (tx(c := s)) r = row_score nrm tx r"
  by (cases r) (auto simp: row_score_def)

lemma writes_Cons:
  "writes nrm format_2f tx (r # rs) =
     (case row_score nrm tx r of
        None \<Rightarrow> writes nrm format_2f tx rs
      | Some v \<Rightarrow> (r ! 1, format_2f v) # writes nrm format_2f tx rs)"
  by (simp add: writes_def row_write_def map_filter_simps split: option.splits)

lemma writes_set:
  "set (writes nrm format_2f tx rs) =
     {(r ! 1, format_2f v) | r v. r \<in> set rs \<and> row_score nrm tx r = Some v}"
proof (induction rs)
  case Nil
  then show ?case by (simp add: writes_def map_filter_simps)
next
  case (Cons r rs)
  show ?case
  proof (cases "row_score nrm tx r")
    case None
    then show ?thesis using Cons.IH by (auto simp: writes_Cons)
  next
    case (Some v)
    then show ?thesis using Cons.IH by (auto simp: writes_Cons)
  qed
qed

text \<open>
  When no matching row's second cell is the first cell of a later row, every row meets
  the texts its own first cell started with, and the loop is the list of writes found
  under the initial texts, or the \<open>IndexError\<close> of a missing position.
\<close>

lemma fill_rows_static:
  assumes "\<forall>x \<in> set rs. row_score nrm tx x = row_score nrm tx0 x"
    and "\<forall>ps r qs. rs = ps @ r # qs \<longrightarrow> row_score nrm tx0 r \<noteq> None \<longrightarrow> 2 \<le> length r \<longrightarrow>
           (\<forall>x \<in> set qs. r ! 1 \<notin> set (take 1 x))"
  shows "fill_rows nrm format_2f tx rs =
     (if \<forall>r \<in> set rs. r \<noteq> [] \<and> (row_score nrm tx0 r \<noteq> None \<longrightarrow> 2 \<le> length r)
      then Inr (apply_writes (writes nrm format_2f tx0 rs) tx)
      else Inl IndexError)"
  using assms
proof (induction rs arbitrary: tx)
  case Nil
  then show ?case by (simp add: writes_def apply_writes_def map_filter_simps)
next
  case (Cons r rs)
  have here: "row_score nrm tx r = row_score nrm tx0 r"
    using Cons.prems(1) by simp
  have later: "\<forall>ps y qs. rs = ps @ y # qs \<longrightarrow> row_score nrm tx0 y \<noteq> None \<longrightarrow> 2 \<le> length y \<longrightarrow>
           (\<forall>x \<in> set qs. y ! 1 \<notin> set (take 1 x))"
  proof (intro allI impI)
    fix ps y qs
    assume "rs = ps @ y # qs" "row_score nrm tx0 y \<noteq> None" "2 \<le> length y"
    then have "r # rs = (r # ps) @ y # qs" by simp
    with Cons.prems(2) \<open>row_score nrm tx0 y \<noteq> None\<close> \<open>2 \<le> length y\<close>
    show "\<forall>x \<in> set qs. y ! 1 \<notin> set (take 1 x)" by blast
  qed
  show ?case
  proof (cases "r = []")
    case True
    then show ?thesis by (simp add: fill_row_score)
  next
    case nonempty: False
    show ?thesis
    proof (cases "row_score nrm tx0 r")
      case None
      have step: "fill_rows nrm format_2f tx (r # rs) = fill_rows nrm format_2f tx rs"
        using nonempty None here by (simp add: fill_row_score)
      have ih: "fill_rows nrm format_2f tx rs =
        (if \<forall>r \<in> set rs. r \<noteq> [] \<and> (row_score nrm tx0 r \<noteq> None \<longrightarrow> 2 \<le> length r)
         then Inr (apply_writes (writes nrm format_2f tx0 rs) tx)
         else Inl IndexError)"
        using Cons.prems(1) later by (intro Cons.IH) simp_all
      show ?thesis
        unfolding step ih using nonempty None by (auto simp: writes_Cons)
    next
      case (Some v)
      show ?thesis
      proof (cases "length r < 2")
        case True
        then show ?thesis
          using nonempty Some here by (auto simp: fill_row_score)
      next
        case False
        then have long: "2 \<le> length r" by simp
        let ?tx1 = "tx(r ! 1 := format_2f v)"
        have "r # rs = [] @ r # rs" by simp
        with Cons.prems(2) Some long have away: "\<forall>x \<in> set rs. r ! 1 \<notin> set (take 1 x)"
          by blast
        have agree: "\<forall>x \<in> set rs. row_score nrm ?tx1 x = row_score nrm tx0 x"
          using Cons.prems(1) away by (simp add: row_score_upd)
        have step: "fill_rows nrm format_2f tx (r # rs) = fill_rows nrm format_2f ?tx1 rs"
          using nonempty Some here False by (simp add: fill_row_score)
        have ih: "fill_rows nrm format_2f ?tx1 rs =
          (if \<forall>r \<in> set rs. r \<noteq> [] \<and> (row_score nrm tx0 r \<noteq> None \<longrightarrow> 2 \<le> length r)
           then Inr (apply_writes (writes nrm format_2f tx0 rs) ?tx1)
           else Inl IndexError)"
          using agree later by (rule Cons.IH)
        show ?thesis
          unfolding step ih using nonempty Some long
          by (auto simp: writes_Cons apply_writes_Cons)
      qed
    qed
  qed
qed


lemma fill_document_tables:
  assumes "doc_tables doc = t # ts"
  shows "fill_document format_2f score_map doc =
     (case fill_rows (norm_map score_map) format_2f (tbl_text t) (drop 1 (tbl_rows t)) of
        Inl e \<Rightarrow> Inl e
      | Inr tx' \<Rightarrow> Inr (doc\<lparr>doc_tables := t\<lparr>tbl_text := tx'\<rparr> # ts\<rparr>))"
  using assms by (simp add: fill_document_def)

text \<open>
  C8 (as amended). A template without a table makes the filler raise the \<open>ValueError\<close>
  for the missing table. Otherwise take the rows of the first table after row 0, and
  suppose each of them has a first cell and each of them whose first cell's text,
  trimmed and lower-cased, is a key of the normalised mapping has a second cell that
  stands in no other of these rows (no merge shares it). Then the filler succeeds and
  saves the document with only cell texts of the first table changed: the second cell of
  each matching row holds the formatted score of its key, every cell of a row without a
  match keeps its text, and so does every cell that is not the second cell of a matching
  row. The keys of the normalised mapping are the mapping's keys, trimmed and
  lower-cased, and each of its values is a value of the mapping under such a key.
\<close>

theorem fill_word_scores_rows:
  assumes "load_docx b = Inr doc"
  shows "(doc_tables doc = [] \<longrightarrow>
            fill_word_scores load_docx save_docx format_2f b score_map =
              Inl (ValueError
                ''Word template has no tables. Expected Operations Review table as first table.''))
       \<and> (\<forall>t ts. doc_tables doc = t # ts
              \<and> (\<forall>ps r qs. drop 1 (tbl_rows t) = ps @ r # qs \<longrightarrow>
                    r \<noteq> []
                    \<and> (row_score (norm_map score_map) (tbl_text t) r \<noteq> None \<longrightarrow>
                         2 \<le> length r \<and> (\<forall>x \<in> set (ps @ qs). r ! 1 \<notin> set x)))
            \<longrightarrow> (\<exists>tx'. fill_word_scores load_docx save_docx format_2f b score_map =
                         Inr (save_docx (doc\<lparr>doc_tables := t\<lparr>tbl_text := tx'\<rparr> # ts\<rparr>))
                  \<and> (\<forall>r \<in> set (drop 1 (tbl_rows t)). \<forall>v.
                        row_score (norm_map score_map) (tbl_text t) r = Some v \<longrightarrow>
                        tx' (r ! 1) = format_2f v)
                  \<and> (\<forall>r \<in> set (drop 1 (tbl_rows t)).
                        row_score (norm_map score_map) (tbl_text t) r = None \<longrightarrow>
                        (\<forall>c \<in> set r. tx' c = tbl_text t c))
                  \<and> (\<forall>c. (\<forall>r \<in> set (drop 1 (tbl_rows t)).
                             row_score (norm_map score_map) (tbl_text t) r \<noteq> None \<longrightarrow> c \<noteq> r ! 1)
                        \<longrightarrow> tx' c = tbl_text t c)))
       \<and> (\<forall>tx c0 cs. row_score (norm_map score_map) tx (c0 # cs) =
                        norm_map score_map (lower (strip (tx c0))))
       \<and> (\<forall>key. (norm_map score_map key = None) = (\<forall>(k, v) \<in> set score_map. lower (strip k) \<noteq> key))
       \<and> (\<forall>key v. norm_map score_map key = Some v \<longrightarrow>
            (\<exists>k. (k, v) \<in> set score_map \<and> lower (strip k) = key))"
proof -
  let ?nrm = "norm_map score_map"
  have none: "fill_word_scores load_docx save_docx format_2f b score_map =
                Inl (ValueError
                  ''Word template has no tables. Expected Operations Review table as first table.'')"
    if "doc_tables doc = []"
    using assms that by (simp add: fill_word_scores_def fill_document_def)
  have some: "\<exists>tx'. fill_word_scores load_docx save_docx format_2f b score_map =
                 Inr (save_docx (doc\<lparr>doc_tables := t\<lparr>tbl_text := tx'\<rparr> # ts\<rparr>))
          \<and> (\<forall>r \<in> set (drop 1 (tbl_rows t)). \<forall>v.
                row_score ?nrm (tbl_text t) r = Some v \<longrightarrow> tx' (r ! 1) = format_2f v)
          \<and> (\<forall>r \<in> set (drop 1 (tbl_rows t)).
                row_score ?nrm (tbl_text t) r = None \<longrightarrow> (\<forall>c \<in> set r. tx' c = tbl_text t c))
          \<and> (\<forall>c. (\<forall>r \<in> set (drop 1 (tbl_rows t)).
                     row_score ?nrm (tbl_text t) r \<noteq> None \<longrightarrow> c \<noteq> r ! 1)
                \<longrightarrow> tx' c = tbl_text t c)"
    if tabs: "doc_tables doc = t # ts"
      and safe: "\<forall>ps r qs. drop 1 (tbl_rows t) = ps @ r # qs \<longrightarrow>
                    r \<noteq> []
                    \<and> (row_score ?nrm (tbl_text t) r \<noteq> None \<longrightarrow>
                         2 \<le> length r \<and> (\<forall>x \<in> set (ps @ qs). r ! 1 \<notin> set x))"
    for t ts
  proof -
    let ?rs = "drop 1 (tbl_rows t)"
    let ?a = "tbl_text t"
    let ?ws = "writes ?nrm format_2f ?a ?rs"
    let ?tx' = "apply_writes ?ws ?a"
    have shape: "r \<noteq> [] \<and> (row_score ?nrm ?a r \<noteq> None \<longrightarrow> 2 \<le> length r)" if "r \<in> set ?rs" for r
    proof -
      from that obtain ps qs where "?rs = ps @ r # qs" by (auto simp: in_set_conv_decomp)
      with safe show ?thesis by blast
    qed
    have apart: "r ! 1 \<notin> set x"
      if "r \<in> set ?rs" "row_score ?nrm ?a r \<noteq> None" "x \<in> set ?rs" "x \<noteq> r" for r x
    proof -
      from that(1) obtain ps qs where d: "?rs = ps @ r # qs" by (auto simp: in_set_conv_decomp)
      with that(3,4) have "x \<in> set (ps @ qs)" by auto
      with safe d that(2) show ?thesis by blast
    qed
    have later: "\<forall>ps r qs. ?rs = ps @ r # qs \<longrightarrow> row_score ?nrm ?a r \<noteq> None \<longrightarrow> 2 \<le> length r \<longrightarrow>
           (\<forall>x \<in> set qs. r ! 1 \<notin> set (take 1 x))"
    proof (intro allI impI ballI)
      fix ps r qs x
      assume d: "?rs = ps @ r # qs" and m: "row_score ?nrm ?a r \<noteq> None" and x: "x \<in> set qs"
      from safe d m x have "r ! 1 \<notin> set x" by auto
      then show "r ! 1 \<notin> set (take 1 x)" by (auto dest: in_set_takeD)
    qed
    have "fill_rows ?nrm format_2f ?a ?rs = Inr ?tx'"
      using fill_rows_static [of ?rs ?nrm ?a ?a format_2f] later shape by auto
    then have run: "fill_word_scores load_docx save_docx format_2f b score_map =
                 Inr (save_docx (doc\<lparr>doc_tables := t\<lparr>tbl_text := ?tx'\<rparr> # ts\<rparr>))"
      using assms tabs by (simp add: fill_word_scores_def fill_document_tables)
    have second: "r ! 1 \<in> set r" if "r \<in> set ?rs" "row_score ?nrm ?a r \<noteq> None" for r
      using shape [OF that(1)] that(2) by simp
    have hit: "?tx' (r ! 1) = format_2f v" if r: "r \<in> set ?rs" and v: "row_score ?nrm ?a r = Some v" for r v
    proof (rule apply_writes_same)
      show "(r ! 1, format_2f v) \<in> set ?ws"
        using r v by (auto simp: writes_set)
      show "\<forall>v'. (r ! 1, v') \<in> set ?ws \<longrightarrow> v' = format_2f v"
      proof (intro allI impI)
        fix v'
        assume "(r ! 1, v') \<in> set ?ws"
        then obtain r' u where r': "r' \<in> set ?rs" "row_score ?nrm ?a r' = Some u"
          "r ! 1 = r' ! 1" "v' = format_2f u"
          by (auto simp: writes_set)
        show "v' = format_2f v"
        proof (cases "r' = r")
          case True
          with r' v show ?thesis by simp
        next
          case False
          then have "r' ! 1 \<notin> set r"
            using apart [of r' r] r r' by simp
          moreover have "r ! 1 \<in> set r" using second [OF r] v by simp
          ultimately show ?thesis using r'(3) by simp
        qed
      qed
    qed
    have miss: "?tx' c = ?a c"
      if "\<forall>r \<in> set ?rs. row_score ?nrm ?a r \<noteq> None \<longrightarrow> c \<noteq> r ! 1" for c
    proof (rule apply_writes_other)
      show "c \<notin> fst ` set ?ws"
        using that by (auto simp: writes_set)
    qed
    have keep: "?tx' c = ?a c"
      if r: "r \<in> set ?rs" and n: "row_score ?nrm ?a r = None" and c: "c \<in> set r" for r c
    proof (rule miss, intro ballI impI)
      fix r'
      assume r': "r' \<in> set ?rs" "row_score ?nrm ?a r' \<noteq> None"
      with n have "r \<noteq> r'" by auto
      then have "r' ! 1 \<notin> set r" using apart [of r' r] r r' by simp
      with c show "c \<noteq> r' ! 1" by auto
    qed
    from run hit keep miss show ?thesis by blast
  qed
  have score: "row_score ?nrm tx (c0 # cs) = ?nrm (lower (strip (tx c0)))" for tx c0 cs
    by (simp add: row_score_def)
  show ?thesis
    using none some score norm_map_None norm_map_Some by blast
qed



lemmas docx_eval = fill_word_scores_def fill_document_def fill_row_def norm_map_def norm_step_def
  ex_load_docx_def ex_save_docx_def ex_save_table_def ex_format_2f_def
  ex_doc_def ex_doc_filled_def ex_doc_narrow_def ex_doc_gap_def ex_doc_shared_def
  ex_doc_merged_def ex_doc_merged_once_def ex_doc_plain_def
  ex_table_def ex_table_other_def ex_text_def ex_text_shared_def ex_text_merged_def

lemma ex_load_plain: "ex_load_docx ''no tables'' = Inr ex_doc_plain"
  by (simp add: docx_eval)


lemma ex_load_template: "ex_load_docx ''Category,Score,; Staff ,?,;Location,?,;CLEANLINESS,?,;/Staff,unrelated,;/narrative'' = Inr ex_doc"
  by (simp add: docx_eval)

text \<open>Three two-cell rows over six different cells meet the premise on shared cells.\<close>

lemma ex_rows_unshared: "\<forall>ps r qs. [[2, 3], [4, 5], [6, 7::nat]] = ps @ r # qs \<longrightarrow>
                r \<noteq> []
                \<and> (P r \<longrightarrow>
                     2 \<le> length r \<and> (\<forall>x \<in> set (ps @ qs). r ! 1 \<notin> set x))"
  by (auto simp: Cons_eq_append_conv)

theorem fill_word_scores_rows_witness:
  "fill_word_scores ex_load_docx ex_save_docx ex_format_2f ''no tables'' [(''Staff'', Fin 3.8)] =
     Inl (ValueError ''Word template has no tables. Expected Operations Review table as first table.'')
   \<and> (\<exists>tx'. fill_word_scores ex_load_docx ex_save_docx ex_format_2f
          ''Category,Score,; Staff ,?,;Location,?,;CLEANLINESS,?,;/Staff,unrelated,;/narrative''
          [(''Staff'', Fin 3.8), (''cleanliness '', Fin 4.5)] =
        Inr (ex_save_docx (ex_doc\<lparr>doc_tables := ex_table\<lparr>tbl_text := tx'\<rparr> # [ex_table_other]\<rparr>))
      \<and> tx' 3 = ''3.80'' \<and> tx' 7 = ''4.50''
      \<and> tx' 4 = ''Location'' \<and> tx' 5 = ''?''
      \<and> tx' 0 = ''Category'' \<and> tx' 1 = ''Score'' \<and> tx' 2 = '' Staff '' \<and> tx' 6 = ''CLEANLINESS'')"
proof -
  let ?m = "[(''Staff'', Fin 3.8), (''cleanliness '', Fin 4.5)]"
  have e: "doc_tables ex_doc_plain = []"
    by (simp add: ex_doc_plain_def)
  have t: "doc_tables ex_doc = ex_table # [ex_table_other]"
    by (simp add: ex_doc_def)
  have rows: "drop 1 (tbl_rows ex_table) = [[2, 3], [4, 5], [6, 7]]"
    by (simp add: ex_table_def)
  have s1: "row_score (norm_map ?m) (tbl_text ex_table) [2, 3] = Some (Fin 3.8)"
    and s2: "row_score (norm_map ?m) (tbl_text ex_table) [4, 5] = None"
    and s3: "row_score (norm_map ?m) (tbl_text ex_table) [6, 7] = Some (Fin 4.5)"
    by (simp_all add: row_score_def norm_map_def norm_step_def ex_table_def ex_text_def str_eval)
  have safe: "\<forall>ps r qs. drop 1 (tbl_rows ex_table) = ps @ r # qs \<longrightarrow>
                r \<noteq> []
                \<and> (row_score (norm_map ?m) (tbl_text ex_table) r \<noteq> None \<longrightarrow>
                     2 \<le> length r \<and> (\<forall>x \<in> set (ps @ qs). r ! 1 \<notin> set x))"
    unfolding rows by (rule ex_rows_unshared)
  have old: "tbl_text ex_table 4 = ''Location''" "tbl_text ex_table 5 = ''?''"
    "tbl_text ex_table 0 = ''Category''" "tbl_text ex_table 1 = ''Score''"
    "tbl_text ex_table 2 = '' Staff ''" "tbl_text ex_table 6 = ''CLEANLINESS''"
    by (simp_all add: ex_table_def ex_text_def)
  have f: "ex_format_2f (Fin 3.8) = ''3.80''" "ex_format_2f (Fin 4.5) = ''4.50''"
    by (simp_all add: ex_format_2f_def)
  note plain = fill_word_scores_rows [where load_docx = ex_load_docx and save_docx = ex_save_docx
        and format_2f = ex_format_2f and score_map = "[(''Staff'', Fin 3.8)]", OF ex_load_plain]
  have first: "fill_word_scores ex_load_docx ex_save_docx ex_format_2f ''no tables'' [(''Staff'', Fin 3.8)] =
     Inl (ValueError ''Word template has no tables. Expected Operations Review table as first table.'')"
    using plain [THEN conjunct1] e by (rule mp)
  note filled = fill_word_scores_rows [where load_docx = ex_load_docx and save_docx = ex_save_docx
        and format_2f = ex_format_2f and score_map = ?m, OF ex_load_template]
  note table = filled [THEN conjunct2, THEN conjunct1, THEN spec, THEN spec, THEN mp,
      OF conjI, OF t safe]
  from table obtain tx' where all:
    "fill_word_scores ex_load_docx ex_save_docx ex_format_2f
          ''Category,Score,; Staff ,?,;Location,?,;CLEANLINESS,?,;/Staff,unrelated,;/narrative'' ?m =
        Inr (ex_save_docx (ex_doc\<lparr>doc_tables := ex_table\<lparr>tbl_text := tx'\<rparr> # [ex_table_other]\<rparr>))
     \<and> (\<forall>r \<in> set (drop 1 (tbl_rows ex_table)). \<forall>v.
                row_score (norm_map ?m) (tbl_text ex_table) r = Some v \<longrightarrow> tx' (r ! 1) = ex_format_2f v)
     \<and> (\<forall>r \<in> set (drop 1 (tbl_rows ex_table)).
                row_score (norm_map ?m) (tbl_text ex_table) r = None \<longrightarrow>
                (\<forall>c \<in> set r. tx' c = tbl_text ex_table c))
     \<and> (\<forall>c. (\<forall>r \<in> set (drop 1 (tbl_rows ex_table)).
                     row_score (norm_map ?m) (tbl_text ex_table) r \<noteq> None \<longrightarrow> c \<noteq> r ! 1)
                \<longrightarrow> tx' c = tbl_text ex_table c)" ..
  note run = all [THEN conjunct1]
  note hit = all [THEN conjunct2, THEN conjunct1, unfolded rows]
  note miss = all [THEN conjunct2, THEN conjunct2, THEN conjunct2, unfolded rows]
  have h3: "tx' 3 = ''3.80''"
    using hit [THEN bspec, of "[2, 3]", THEN spec, THEN mp, OF _ s1] f by simp
  have h7: "tx' 7 = ''4.50''"
    using hit [THEN bspec, of "[6, 7]", THEN spec, THEN mp, OF _ s3] f by simp
  have others: "tx' 4 = ''Location''" "tx' 5 = ''?''" "tx' 0 = ''Category''" "tx' 1 = ''Score''"
    "tx' 2 = '' Staff ''" "tx' 6 = ''CLEANLINESS''"
    using miss [THEN spec, of 4] miss [THEN spec, of 5] miss [THEN spec, of 0]
      miss [THEN spec, of 1] miss [THEN spec, of 2] miss [THEN spec, of 6] s1 s2 s3 old
    by simp_all
  show ?thesis
    using first run h3 h7 others by (intro conjI exI [of _ tx']) simp_all
qed

text \<open>
  C8 as stated fails on three templates with a table. With a single column and a row
  that matches a key, nothing is overwritten and the filler raises \<open>IndexError\<close>; a
  row without cells raises it too. Where the second cell of the matching row "Staff"
  is also the second cell of the row "Location" (a vertical merge), the row
  "Location", which matches no key, is changed.
\<close>

theorem unfillable_tables_counterexample:
  "fill_word_scores ex_load_docx ex_save_docx ex_format_2f ''Category,;Staff,;/narrow''
     [(''Staff'', Fin 3.8)] = Inl IndexError
   \<and> fill_word_scores ex_load_docx ex_save_docx ex_format_2f ''Category,Score,;;/gap''
     [(''Staff'', Fin 3.8)] = Inl IndexError
   \<and> ex_load_docx ''Category,Score,;Staff,?,;Location,?,;/shared'' = Inr ex_doc_shared
   \<and> row_score (norm_map [(''Staff'', Fin 3.8)]) ex_text_shared [4, 3] = None
   \<and> fill_word_scores ex_load_docx ex_save_docx ex_format_2f
       ''Category,Score,;Staff,?,;Location,?,;/shared'' [(''Staff'', Fin 3.8)] =
     Inr ''Category,Score,;Staff,3.80,;Location,3.80,;/shared''"
  by (simp add: docx_eval row_score_def str_eval)






section \<open>Properties of DocumentMerger\<close>

lemma add_pages_append: "add_pages writer pages = writer @ pages"
  unfolding add_pages_def by (induction pages arbitrary: writer) simp_all

lemma add_optional_pages:
  assumes "case pdf_bytes of Some (b # bs) \<Rightarrow> read_pdf (b # bs) = Inr ps | _ \<Rightarrow> ps = []"
  shows "add_optional read_pdf writer pdf_bytes = Inr (writer @ ps)"
  using assms
  by (auto simp: add_optional_def add_pages_append split: option.splits list.splits)

text \<open>
  C6. When the scorecard reads as the pages \<open>score\<close>, the cover (if given and not
  empty) as \<open>cs\<close> and the narrative (if given and not empty) as \<open>ns\<close>, an absent
  document counting as no pages, the merger writes exactly the pages \<open>cs @ score @ ns\<close>:
  cover first, then the scorecard, then the narrative, each in its own order and with
  nothing dropped. With two, one and three pages these are the six pages in that order.
\<close>

theorem merge_page_order:
  assumes "read_pdf scorecard = Inr score"
    and "case cover of Some (b # bs) \<Rightarrow> read_pdf (b # bs) = Inr cs | _ \<Rightarrow> cs = []"
    and "case narrative of Some (b # bs) \<Rightarrow> read_pdf (b # bs) = Inr ns | _ \<Rightarrow> ns = []"
  shows "merge_pdfs read_pdf write_pdf cover scorecard narrative = Inr (write_pdf (cs @ score @ ns))"
  using assms(1) add_optional_pages [OF assms(2)] add_optional_pages [OF assms(3)]
  by (simp add: merge_pdfs_def add_pages_append)

theorem merge_page_order_witness:
  "merge_pdfs ex_read_pdf ex_write_pdf (Some ''cover'') ''scorecard'' (Some ''narrative'') =
     Inr (ex_write_pdf [''cover 1'', ''cover 2'', ''scorecard 1'',
                        ''narrative 1'', ''narrative 2'', ''narrative 3''])
   \<and> merge_pdfs ex_read_pdf ex_write_pdf None ''scorecard'' (Some []) =
     Inr (ex_write_pdf [''scorecard 1''])"
proof -
  have s: "ex_read_pdf ''scorecard'' = Inr [''scorecard 1'']"
    by (simp add: ex_read_pdf_def)
  have c: "case Some ''cover'' of Some (b # bs) \<Rightarrow> ex_read_pdf (b # bs) = Inr [''cover 1'', ''cover 2'']
           | _ \<Rightarrow> [''cover 1'', ''cover 2''] = []"
    by (simp add: ex_read_pdf_def)
  have n: "case Some ''narrative'' of
             Some (b # bs) \<Rightarrow> ex_read_pdf (b # bs) = Inr [''narrative 1'', ''narrative 2'', ''narrative 3'']
           | _ \<Rightarrow> [''narrative 1'', ''narrative 2'', ''narrative 3''] = []"
    by (simp add: ex_read_pdf_def)
  have c0: "case None of Some (b # bs) \<Rightarrow> ex_read_pdf (b # bs) = Inr [] | _ \<Rightarrow> ([] :: string list) = []"
    by simp
  have n0: "case Some [] of Some (b # bs) \<Rightarrow> ex_read_pdf (b # bs) = Inr [] | _ \<Rightarrow> ([] :: string list) = []"
    by simp
  show ?thesis
    using merge_page_order [where read_pdf = ex_read_pdf and write_pdf = ex_write_pdf, OF s c n]
      merge_page_order [where read_pdf = ex_read_pdf and write_pdf = ex_write_pdf, OF s c0 n0]
    by simp
qed


section \<open>Properties of PublishStore\<close>

text \<open>
  C2 (as amended). With a connection string, a client and a container client, whatever
  the provisioning call returns (success, the container already existing, or any other
  failure), publishing goes on to the upload, and its result is that of the upload and
  of the key lookup and signing after it. No exception of the provisioning call
  reaches the caller.
\<close>

theorem provisioning_failure_suppressed:
  assumes "conn_str \<noteq> []"
    and "from_connection_string conn_str = Inr bsc"
    and "get_container_client bsc container = Inr client"
    and "create_container client st = (outcome, st1)"
  shows "upload_with_sas conn_str container from_connection_string generate_blob_sas now name data st =
     (case upload_blob client name data st1 of
        (Some e, st2) \<Rightarrow> (Inl e, st2)
      | (None, st2) \<Rightarrow>
          (case account_key bsc of
             Inl e \<Rightarrow> (Inl e, st2)
           | Inr acc_key \<Rightarrow>
               (case generate_blob_sas (account_name bsc) container name acc_key (now + 24 * 3600) of
                  Inl e \<Rightarrow> (Inl e, st2)
                | Inr sas \<Rightarrow>
                    (Inr (''https://'' @ account_name bsc @ ''.blob.core.windows.net/'' @ container
                          @ ''/'' @ name @ ''?'' @ sas), st2))))"
  using assms
  by (simp add: upload_with_sas_def Let_def split: prod.splits option.splits sum.splits)

lemmas store_eval = ex_connect_def ex_service_def ex_busy_service_def ex_token_service_def
  ex_client_def ex_busy_client_def ex_busy_create_def ex_create_def ex_upload_def ex_sign_def

theorem provisioning_failure_suppressed_witness:
  "upload_with_sas ''busy'' ''reports'' ex_connect ex_sign 0 ''r.pdf'' ''data'' [] =
     (Inl (LibraryError ''The specified container does not exist.''), [])
   \<and> upload_with_sas ''main'' ''reports'' ex_connect ex_sign 0 ''r.pdf'' ''data''
        [(''reports'', [(''old.pdf'', ''x'')])] =
     (Inr ''https://acct.blob.core.windows.net/reports/r.pdf?sp=r&sig=s'',
      [(''reports'', [(''old.pdf'', ''x''), (''r.pdf'', ''data'')])])
   \<and> upload_with_sas ''token'' ''reports'' ex_connect ex_sign 0 ''r.pdf'' ''data'' [] =
     (Inl (AttributeError ''object has no attribute 'account_key' ''),
      [(''reports'', [(''r.pdf'', ''data'')])])"
proof -
  have n: "''busy'' \<noteq> []" "''main'' \<noteq> []" "''token'' \<noteq> []" by simp_all
  have b: "ex_connect ''busy'' = Inr ex_busy_service" and m: "ex_connect ''main'' = Inr ex_service"
    and k: "ex_connect ''token'' = Inr ex_token_service"
    by (simp_all add: ex_connect_def)
  have g1: "get_container_client ex_busy_service ''reports'' =
              Inr \<lparr>create_container = ex_busy_create, upload_blob = ex_upload ''reports''\<rparr>"
    by (simp add: ex_busy_service_def ex_busy_client_def)
  have g2: "get_container_client ex_service ''reports'' =
              Inr \<lparr>create_container = ex_create ''reports'', upload_blob = ex_upload ''reports''\<rparr>"
    and g3: "get_container_client ex_token_service ''reports'' =
              Inr \<lparr>create_container = ex_create ''reports'', upload_blob = ex_upload ''reports''\<rparr>"
    by (simp_all add: ex_service_def ex_token_service_def ex_client_def)
  have c1: "create_container \<lparr>create_container = ex_busy_create, upload_blob = ex_upload ''reports''\<rparr> [] =
              (Some (LibraryError ''The server is busy.''), [])"
    by (simp add: ex_busy_create_def)
  have c2: "create_container \<lparr>create_container = ex_create ''reports'', upload_blob = ex_upload ''reports''\<rparr>
              [(''reports'', [(''old.pdf'', ''x'')])] =
              (Some ResourceExistsError, [(''reports'', [(''old.pdf'', ''x'')])])"
    by (simp add: ex_create_def)
  have c3: "create_container \<lparr>create_container = ex_create ''reports'', upload_blob = ex_upload ''reports''\<rparr> [] =
              (None, [(''reports'', [])])"
    by (simp add: ex_create_def)
  show ?thesis
    using provisioning_failure_suppressed [where from_connection_string = ex_connect
        and generate_blob_sas = ex_sign and now = 0 and name = "''r.pdf''" and data = "''data''",
        OF n(1) b g1 c1]
      provisioning_failure_suppressed [where from_connection_string = ex_connect
        and generate_blob_sas = ex_sign and now = 0 and name = "''r.pdf''" and data = "''data''",
        OF n(2) m g2 c2]
      provisioning_failure_suppressed [where from_connection_string = ex_connect
        and generate_blob_sas = ex_sign and now = 0 and name = "''r.pdf''" and data = "''data''",
        OF n(3) k g3 c3]
    by (simp add: store_eval)
qed

text \<open>
  C2 as stated fails: the provisioning call fails with an error other than "already
  exists", and publishing still returns a URL instead of that error.
\<close>

theorem provisioning_failure_counterexample:
  "ex_busy_create [(''reports'', [])] =
     (Some (LibraryError ''The server is busy.''), [(''reports'', [])])
   \<and> upload_with_sas ''busy'' ''reports'' ex_connect ex_sign 0 ''r.pdf'' ''data'' [(''reports'', [])] =
     (Inr ''https://acct.blob.core.windows.net/reports/r.pdf?sp=r&sig=s'',
      [(''reports'', [(''r.pdf'', ''data'')])])"
  by (simp add: upload_with_sas_def store_eval)

end
